theory Spec2Isabelle
  imports Complex_Main
begin

section \<open>Model-pack downloader (scripts/download\_models.py)\<close>

text \<open>
  The script holds a static catalog of model packs, a function that fetches one file
  unless it is already on disk, a function that fetches the groups of one pack in
  order, a listing function and a command-line entry point. The embedding below
  follows the script function by function. The filesystem, the network and the
  standard output are an explicit \<open>world\<close> that every function takes and returns.
\<close>

subsection \<open>Paths and the directory layout\<close>

text \<open>
  A \<open>pathlib.Path\<close> is the list of its parts; \<open>p / 'x'\<close> appends the part
  \<open>x\<close>. \<open>MODEL_DIR\<close> comes from the environment (default
  \<open>/workspace/models\<close>), so every definition that depends on it takes it as an argument.
\<close>

type_synonym path = "string list"

definition path_name :: "path \<Rightarrow> string" where
  "path_name p = (if p = [] then [] else last p)"

definition CHECKPOINTS_DIR :: "path \<Rightarrow> path" where
  "CHECKPOINTS_DIR MODEL_DIR = MODEL_DIR @ [''checkpoints'']"

definition UNET_DIR :: "path \<Rightarrow> path" where
  "UNET_DIR MODEL_DIR = MODEL_DIR @ [''unet'']"

definition UPSCALE_MODELS_DIR :: "path \<Rightarrow> path" where
  "UPSCALE_MODELS_DIR MODEL_DIR = MODEL_DIR @ [''upscale_models'']"

definition VAE_DIR :: "path \<Rightarrow> path" where
  "VAE_DIR MODEL_DIR = MODEL_DIR @ [''vae'']"

definition CLIP_DIR :: "path \<Rightarrow> path" where
  "CLIP_DIR MODEL_DIR = MODEL_DIR @ [''clip'']"

definition LORAS_DIR :: "path \<Rightarrow> path" where
  "LORAS_DIR MODEL_DIR = MODEL_DIR @ [''loras'']"

definition CONTROLNET_DIR :: "path \<Rightarrow> path" where
  "CONTROLNET_DIR MODEL_DIR = MODEL_DIR @ [''controlnet'']"

definition IPADAPTER_DIR :: "path \<Rightarrow> path" where
  "IPADAPTER_DIR MODEL_DIR = MODEL_DIR @ [''ipadapter'']"

definition EMBEDDINGS_DIR :: "path \<Rightarrow> path" where
  "EMBEDDINGS_DIR MODEL_DIR = MODEL_DIR @ [''embeddings'']"

definition STYLE_MODELS_DIR :: "path \<Rightarrow> path" where
  "STYLE_MODELS_DIR MODEL_DIR = MODEL_DIR @ [''style_models'']"

subsection \<open>The catalog\<close>

text \<open>
  A file entry is a dict with the keys \<open>url\<close> and \<open>path\<close> (read with \<open>[...]\<close>)
  and the keys \<open>size\<close> and \<open>optional\<close> (read with \<open>.get\<close>, so they may be
  absent). A pack is a dict with \<open>name\<close>, \<open>description\<close>, \<open>files\<close> and the
  groups \<open>loras\<close>, \<open>controlnet\<close> and \<open>embeddings\<close>, which may be absent. Dicts
  keep insertion order, so a group is an association list.
\<close>

record file_info =
  url :: string
  path :: path
  size_label :: "string option"
  optional :: "bool option"

type_synonym file_group = "(string \<times> file_info) list"

record model_pack =
  name :: string
  description :: string
  files :: file_group
  loras :: "file_group option"
  controlnet :: "file_group option"
  embeddings :: "file_group option"

definition pack_flux_dev :: "path \<Rightarrow> model_pack" where
  "pack_flux_dev MODEL_DIR =
   \<lparr>name = ''FLUX.1-dev'',
    description = ''Black Forest Labs FLUX.1-dev (12B parameter model)'',
    files =
     [(''checkpoint'',
       \<lparr>url = ''https://huggingface.co/black-forest-labs/FLUX.1-dev/resolve/main/flux1-dev.safetensors'',
        path = CHECKPOINTS_DIR MODEL_DIR @ [''flux1-dev.safetensors''],
        size_label = Some ''23.8 GB'', optional = None\<rparr>),
      (''clip_l'',
       \<lparr>url = ''https://huggingface.co/comfyanonymous/flux_text_encoders/resolve/main/clip_l.safetensors'',
        path = CLIP_DIR MODEL_DIR @ [''clip_l.safetensors''],
        size_label = Some ''246 MB'', optional = None\<rparr>),
      (''t5xxl'',
       \<lparr>url = ''https://huggingface.co/comfyanonymous/flux_text_encoders/resolve/main/t5xxl_fp16.safetensors'',
        path = CLIP_DIR MODEL_DIR @ [''t5xxl_fp16.safetensors''],
        size_label = Some ''9.79 GB'', optional = None\<rparr>),
      (''vae'',
       \<lparr>url = ''https://huggingface.co/black-forest-labs/FLUX.1-dev/resolve/main/ae.safetensors'',
        path = VAE_DIR MODEL_DIR @ [''flux_vae.safetensors''],
        size_label = Some ''335 MB'', optional = None\<rparr>)],
    loras = Some
     [(''flux-realism'',
       \<lparr>url = ''https://huggingface.co/XLabs-AI/flux-RealismLora/resolve/main/lora.safetensors'',
        path = LORAS_DIR MODEL_DIR @ [''flux-realism.safetensors''],
        size_label = Some ''382 MB'', optional = Some True\<rparr>)],
    controlnet = None,
    embeddings = None\<rparr>"

definition pack_flux_schnell :: "path \<Rightarrow> model_pack" where
  "pack_flux_schnell MODEL_DIR =
   \<lparr>name = ''FLUX.1-schnell'',
    description = ''Black Forest Labs FLUX.1-schnell (fast inference)'',
    files =
     [(''checkpoint'',
       \<lparr>url = ''https://huggingface.co/black-forest-labs/FLUX.1-schnell/resolve/main/flux1-schnell.safetensors'',
        path = CHECKPOINTS_DIR MODEL_DIR @ [''flux1-schnell.safetensors''],
        size_label = Some ''23.8 GB'', optional = None\<rparr>),
      (''clip_l'',
       \<lparr>url = ''https://huggingface.co/comfyanonymous/flux_text_encoders/resolve/main/clip_l.safetensors'',
        path = CLIP_DIR MODEL_DIR @ [''clip_l.safetensors''],
        size_label = Some ''246 MB'', optional = None\<rparr>),
      (''t5xxl'',
       \<lparr>url = ''https://huggingface.co/comfyanonymous/flux_text_encoders/resolve/main/t5xxl_fp8_e4m3fn.safetensors'',
        path = CLIP_DIR MODEL_DIR @ [''t5xxl_fp8_e4m3fn.safetensors''],
        size_label = Some ''4.89 GB'', optional = None\<rparr>),
      (''vae'',
       \<lparr>url = ''https://huggingface.co/black-forest-labs/FLUX.1-schnell/resolve/main/ae.safetensors'',
        path = VAE_DIR MODEL_DIR @ [''flux_vae.safetensors''],
        size_label = Some ''335 MB'', optional = None\<rparr>)],
    loras = None,
    controlnet = None,
    embeddings = None\<rparr>"

definition pack_sdxl :: "path \<Rightarrow> model_pack" where
  "pack_sdxl MODEL_DIR =
   \<lparr>name = ''Stable Diffusion XL'',
    description = ''Stability AI SDXL 1.0 base model'',
    files =
     [(''checkpoint'',
       \<lparr>url = ''https://huggingface.co/stabilityai/stable-diffusion-xl-base-1.0/resolve/main/sd_xl_base_1.0.safetensors'',
        path = CHECKPOINTS_DIR MODEL_DIR @ [''sd_xl_base_1.0.safetensors''],
        size_label = Some ''6.94 GB'', optional = None\<rparr>),
      (''refiner'',
       \<lparr>url = ''https://huggingface.co/stabilityai/stable-diffusion-xl-refiner-1.0/resolve/main/sd_xl_refiner_1.0.safetensors'',
        path = CHECKPOINTS_DIR MODEL_DIR @ [''sd_xl_refiner_1.0.safetensors''],
        size_label = Some ''6.08 GB'', optional = Some True\<rparr>),
      (''vae'',
       \<lparr>url = ''https://huggingface.co/stabilityai/sdxl-vae/resolve/main/sdxl_vae.safetensors'',
        path = VAE_DIR MODEL_DIR @ [''sdxl_vae.safetensors''],
        size_label = Some ''335 MB'', optional = None\<rparr>)],
    loras = Some
     [(''realistic_skin_texture'',
       \<lparr>url = ''https://civitai.com/api/download/models/707763?token=b52f18fe1b10f6878747dbd8419924dc'',
        path = LORAS_DIR MODEL_DIR @ [''realistic_skin_texture_v4.safetensors''],
        size_label = Some ''144 MB'', optional = Some True\<rparr>),
      (''skin_realism_acne'',
       \<lparr>url = ''https://civitai.com/api/download/models/340833?token=b52f18fe1b10f6878747dbd8419924dc'',
        path = LORAS_DIR MODEL_DIR @ [''skin_realism_acne_details.safetensors''],
        size_label = Some ''143 MB'', optional = Some True\<rparr>),
      (''touch_of_realism'',
       \<lparr>url = ''https://civitai.com/api/download/models/1934796?token=b52f18fe1b10f6878747dbd8419924dc'',
        path = LORAS_DIR MODEL_DIR @ [''touch_of_realism_sdxl_v2.safetensors''],
        size_label = Some ''143 MB'', optional = Some True\<rparr>)],
    controlnet = None,
    embeddings = Some
     [(''realistic_skin_ti'',
       \<lparr>url = ''https://civitai.com/api/download/models/2192131?token=b52f18fe1b10f6878747dbd8419924dc'',
        path = EMBEDDINGS_DIR MODEL_DIR @ [''RealisticSkin.safetensors''],
        size_label = Some ''12 KB'', optional = Some True\<rparr>)]\<rparr>"

definition pack_sdxl_biglove :: "path \<Rightarrow> model_pack" where
  "pack_sdxl_biglove MODEL_DIR =
   \<lparr>name = ''SDXL Big Love (Photorealistic Checkpoint)'',
    description = ''Community fine-tuned SDXL checkpoint focused on photorealistic portraits'',
    files =
     [(''checkpoint'',
       \<lparr>url = ''https://civitai.com/api/download/models/2291289?token=b52f18fe1b10f6878747dbd8419924dc'',
        path = CHECKPOINTS_DIR MODEL_DIR @ [''bigLove_insta1.safetensors''],
        size_label = Some ''6.46 GB'', optional = None\<rparr>),
      (''vae'',
       \<lparr>url = ''https://huggingface.co/stabilityai/sdxl-vae/resolve/main/sdxl_vae.safetensors'',
        path = VAE_DIR MODEL_DIR @ [''sdxl_vae.safetensors''],
        size_label = Some ''335 MB'', optional = None\<rparr>)],
    loras = Some
     [(''realistic_skin_texture'',
       \<lparr>url = ''https://civitai.com/api/download/models/707763?token=b52f18fe1b10f6878747dbd8419924dc'',
        path = LORAS_DIR MODEL_DIR @ [''realistic_skin_texture_v4.safetensors''],
        size_label = Some ''144 MB'', optional = Some True\<rparr>)],
    controlnet = None,
    embeddings = None\<rparr>"

definition pack_wan22 :: "path \<Rightarrow> model_pack" where
  "pack_wan22 MODEL_DIR =
   \<lparr>name = ''WAN 2.2 (Text-to-Video 14B)'',
    description = ''Wuerstchen Architecture Network 2.2 - High quality text-to-video generation (14B params)'',
    files =
     [(''unet_low_noise'',
       \<lparr>url = ''https://huggingface.co/MaxedOut/ComfyUI-Starter-Packs/resolve/main/Wan2.2/unet_14b/wan2.2_t2v_low_noise_14B_fp8_scaled.safetensors'',
        path = UNET_DIR MODEL_DIR @ [''wan2.2_t2v_low_noise_14B_fp8_scaled.safetensors''],
        size_label = Some ''13.5 GB'', optional = None\<rparr>),
      (''unet_high_noise'',
       \<lparr>url = ''https://huggingface.co/MaxedOut/ComfyUI-Starter-Packs/resolve/main/Wan2.2/unet_14b/wan2.2_t2v_high_noise_14B_fp8_scaled.safetensors'',
        path = UNET_DIR MODEL_DIR @ [''wan2.2_t2v_high_noise_14B_fp8_scaled.safetensors''],
        size_label = Some ''13.5 GB'', optional = None\<rparr>),
      (''clip'',
       \<lparr>url = ''https://huggingface.co/MaxedOut/ComfyUI-Starter-Packs/resolve/main/Wan2.2/clip/umt5_xxl_fp8_e4m3fn_scaled.safetensors'',
        path = CLIP_DIR MODEL_DIR @ [''umt5_xxl_fp8_e4m3fn_scaled.safetensors''],
        size_label = Some ''4.89 GB'', optional = None\<rparr>),
      (''vae'',
       \<lparr>url = ''https://huggingface.co/MaxedOut/ComfyUI-Starter-Packs/resolve/main/Wan2.2/vae/wan_2.1_vae.safetensors'',
        path = VAE_DIR MODEL_DIR @ [''wan_2.1_vae.safetensors''],
        size_label = Some ''335 MB'', optional = None\<rparr>)],
    loras = Some
     [(''lightning_low'',
       \<lparr>url = ''https://huggingface.co/MaxedOut/ComfyUI-Starter-Packs/resolve/main/Wan2.2/loras_14b/Wan2.2-Lightning_T2V-v1.1-A14B-4steps-lora_LOW_fp16.safetensors'',
        path = LORAS_DIR MODEL_DIR @ [''wan22_lightning_low_4steps.safetensors''],
        size_label = Some ''2.1 GB'', optional = Some True\<rparr>),
      (''lightning_high'',
       \<lparr>url = ''https://huggingface.co/MaxedOut/ComfyUI-Starter-Packs/resolve/main/Wan2.2/loras_14b/Wan2.2-Lightning_T2V-v1.1-A14B-4steps-lora_HIGH_fp16.safetensors'',
        path = LORAS_DIR MODEL_DIR @ [''wan22_lightning_high_4steps.safetensors''],
        size_label = Some ''2.1 GB'', optional = Some True\<rparr>),
      (''lenovo_ultrareal'',
       \<lparr>url = ''https://civitai.com/api/download/models/2066914?token=b52f18fe1b10f6878747dbd8419924dc'',
        path = LORAS_DIR MODEL_DIR @ [''lenovo_ultrareal_wan22.safetensors''],
        size_label = Some ''2.1 GB'', optional = Some True\<rparr>)],
    controlnet = None,
    embeddings = None\<rparr>"

definition pack_qwen_image :: "path \<Rightarrow> model_pack" where
  "pack_qwen_image MODEL_DIR =
   \<lparr>name = ''Qwen Image Edit 2509 (Lightning)'',
    description = ''Alibaba Qwen 2.5 VL - Image editing and generation with 4-step Lightning inference'',
    files =
     [(''checkpoint'',
       \<lparr>url = ''https://huggingface.co/Comfy-Org/Qwen-Image_ComfyUI/resolve/main/split_files/diffusion_models/qwen_image_2509_fp8_scaled.safetensors'',
        path = CHECKPOINTS_DIR MODEL_DIR @ [''qwen_image_2509_fp8_scaled.safetensors''],
        size_label = Some ''7.8 GB'', optional = None\<rparr>),
      (''text_encoder'',
       \<lparr>url = ''https://huggingface.co/Comfy-Org/Qwen-Image_ComfyUI/resolve/main/split_files/text_encoders/qwen_2.5_vl_7b_fp8_scaled.safetensors'',
        path = CLIP_DIR MODEL_DIR @ [''qwen_2.5_vl_7b_fp8_scaled.safetensors''],
        size_label = Some ''4.2 GB'', optional = None\<rparr>),
      (''vae'',
       \<lparr>url = ''https://huggingface.co/Comfy-Org/Qwen-Image_ComfyUI/resolve/main/split_files/vae/qwen_image_vae.safetensors'',
        path = VAE_DIR MODEL_DIR @ [''qwen_image_vae.safetensors''],
        size_label = Some ''335 MB'', optional = None\<rparr>)],
    loras = Some
     [(''lightning_v1'',
       \<lparr>url = ''https://huggingface.co/lightx2v/Qwen-Image-Lightning/resolve/main/Qwen-Image-Lightning-4steps-V1.0.safetensors'',
        path = LORAS_DIR MODEL_DIR @ [''qwen_image_lightning_4steps_v1.0.safetensors''],
        size_label = Some ''1.2 GB'', optional = Some True\<rparr>),
      (''lightning_alt'',
       \<lparr>url = ''https://huggingface.co/alexgenovese/checkpoint/resolve/main/Qwen/Qwen-Image-Lightning-4steps-V1.0.safetensors'',
        path = LORAS_DIR MODEL_DIR @ [''qwen_image_lightning_4steps_alt.safetensors''],
        size_label = Some ''1.2 GB'', optional = Some True\<rparr>)],
    controlnet = None,
    embeddings = None\<rparr>"

definition pack_sd15 :: "path \<Rightarrow> model_pack" where
  "pack_sd15 MODEL_DIR =
   \<lparr>name = ''Stable Diffusion 1.5'',
    description = ''Classic SD 1.5 - still widely used'',
    files =
     [(''checkpoint'',
       \<lparr>url = ''https://huggingface.co/runwayml/stable-diffusion-v1-5/resolve/main/v1-5-pruned-emaonly.safetensors'',
        path = CHECKPOINTS_DIR MODEL_DIR @ [''v1-5-pruned-emaonly.safetensors''],
        size_label = Some ''3.97 GB'', optional = None\<rparr>),
      (''vae'',
       \<lparr>url = ''https://huggingface.co/stabilityai/sd-vae-ft-mse-original/resolve/main/vae-ft-mse-840000-ema-pruned.safetensors'',
        path = VAE_DIR MODEL_DIR @ [''sd15_vae.safetensors''],
        size_label = Some ''335 MB'', optional = None\<rparr>)],
    loras = None,
    controlnet = Some
     [(''canny'',
       \<lparr>url = ''https://huggingface.co/lllyasviel/ControlNet-v1-1/resolve/main/control_v11p_sd15_canny.pth'',
        path = CONTROLNET_DIR MODEL_DIR @ [''control_v11p_sd15_canny.pth''],
        size_label = Some ''1.45 GB'', optional = Some True\<rparr>),
      (''depth'',
       \<lparr>url = ''https://huggingface.co/lllyasviel/ControlNet-v1-1/resolve/main/control_v11f1p_sd15_depth.pth'',
        path = CONTROLNET_DIR MODEL_DIR @ [''control_v11f1p_sd15_depth.pth''],
        size_label = Some ''1.45 GB'', optional = Some True\<rparr>)],
    embeddings = None\<rparr>"

definition pack_upscalers :: "path \<Rightarrow> model_pack" where
  "pack_upscalers MODEL_DIR =
   \<lparr>name = ''AI Upscaler Pack (Image & Video)'',
    description = ''Complete upscaling suite - ESRGAN, RealESRGAN, SeedVR2, and detail enhancement models'',
    files =
     [(''seedvr2'',
       \<lparr>url = ''https://huggingface.co/numz/SeedVR2_comfyUI/resolve/main/seedvr2_ema_7b_sharp_fp8_e4m3fn.safetensors'',
        path = UPSCALE_MODELS_DIR MODEL_DIR @ [''seedvr2_ema_7b_sharp_fp8.safetensors''],
        size_label = Some ''7.2 GB'', optional = None\<rparr>),
      (''realesrgan_x4plus'',
       \<lparr>url = ''https://github.com/xinntao/Real-ESRGAN/releases/download/v0.1.0/RealESRGAN_x4plus.pth'',
        path = UPSCALE_MODELS_DIR MODEL_DIR @ [''RealESRGAN_x4plus.pth''],
        size_label = Some ''64 MB'', optional = None\<rparr>),
      (''realesrgan_x4plus_anime'',
       \<lparr>url = ''https://github.com/xinntao/Real-ESRGAN/releases/download/v0.2.2.4/RealESRGAN_x4plus_anime_6B.pth'',
        path = UPSCALE_MODELS_DIR MODEL_DIR @ [''RealESRGAN_x4plus_anime_6B.pth''],
        size_label = Some ''17.9 MB'', optional = None\<rparr>),
      (''ultrasharp_4x'',
       \<lparr>url = ''https://huggingface.co/lokCX/4x-Ultrasharp/resolve/main/4x-UltraSharp.pth'',
        path = UPSCALE_MODELS_DIR MODEL_DIR @ [''4x-UltraSharp.pth''],
        size_label = Some ''67 MB'', optional = None\<rparr>),
      (''lollypop_4x'',
       \<lparr>url = ''https://huggingface.co/Kim2091/UltraSharp/resolve/main/4x-Lollypop.pth'',
        path = UPSCALE_MODELS_DIR MODEL_DIR @ [''4x-Lollypop.pth''],
        size_label = Some ''67 MB'', optional = Some True\<rparr>),
      (''nmkd_superscale'',
       \<lparr>url = ''https://huggingface.co/gemasai/4x_NMKD-Superscale-SP_178000_G/resolve/main/4x_NMKD-Superscale-SP_178000_G.pth'',
        path = UPSCALE_MODELS_DIR MODEL_DIR @ [''4x_NMKD-Superscale-SP_178000_G.pth''],
        size_label = Some ''67 MB'', optional = Some True\<rparr>),
      (''ldsr'',
       \<lparr>url = ''https://huggingface.co/lllyasviel/Annotators/resolve/main/ldsr/last.ckpt'',
        path = UPSCALE_MODELS_DIR MODEL_DIR @ [''ldsr.ckpt''],
        size_label = Some ''2.0 GB'', optional = Some True\<rparr>)],
    loras = Some
     [(''skin_detail_lite'',
       \<lparr>url = ''https://huggingface.co/gemasai/x1_ITF_SkinDiffDetail_Lite_v1/resolve/main/x1_ITF_SkinDiffDetail_Lite_v1.safetensors'',
        path = LORAS_DIR MODEL_DIR @ [''skin_detail_lite_v1.safetensors''],
        size_label = Some ''144 MB'', optional = Some True\<rparr>),
      (''detail_tweaker'',
       \<lparr>url = ''https://huggingface.co/Birchlabs/detail-tweaker-xl/resolve/main/detail-tweaker-xl.safetensors'',
        path = LORAS_DIR MODEL_DIR @ [''detail_tweaker_xl.safetensors''],
        size_label = Some ''23 MB'', optional = Some True\<rparr>)],
    controlnet = None,
    embeddings = None\<rparr>"

definition MODEL_PACKS :: "path \<Rightarrow> (string \<times> model_pack) list" where
  "MODEL_PACKS MODEL_DIR =
    [(''flux-dev'', pack_flux_dev MODEL_DIR),
     (''flux-schnell'', pack_flux_schnell MODEL_DIR),
     (''sdxl'', pack_sdxl MODEL_DIR),
     (''sdxl-biglove'', pack_sdxl_biglove MODEL_DIR),
     (''wan22'', pack_wan22 MODEL_DIR),
     (''qwen-image'', pack_qwen_image MODEL_DIR),
     (''sd15'', pack_sd15 MODEL_DIR),
     (''upscalers'', pack_upscalers MODEL_DIR)]"

subsection \<open>The world: filesystem, network, output\<close>

text \<open>
  The exceptions that the statements of the \<open>try\<close> block of \<open>download_file\<close> raise:
  \<open>requests.get\<close> (connection, timeout), \<open>raise_for_status\<close> (HTTP status),
  \<open>int\<close> on the length header (\<open>ValueError\<close>), \<open>open\<close> and \<open>write\<close>
  (\<open>OSError\<close>); \<open>IndexError\<close> is for the listing. All are subclasses of
  \<open>Exception\<close>.
\<close>

datatype exn = ConnectionError | Timeout | HTTPError nat | ValueError | OSError | IndexError

datatype header = Absent | Numeric int | Malformed

record response =
  status_code :: nat
  content_length :: header
  body :: "string list"
  body_error :: "exn option"

text \<open>
  What the environment does during one invocation that reaches the network:
  \<open>get_result\<close> is what \<open>requests.get\<close> raises or returns, the response's
  \<open>body\<close> is the chunks that \<open>iter_content\<close> yields and \<open>body_error\<close> what it
  raises after them, \<open>open_error\<close> is what \<open>open(destination, 'wb')\<close> raises,
  and \<open>write_limit\<close> is the number of \<open>f.write\<close> calls that succeed before
  the next one raises \<open>OSError\<close>.
\<close>

record attempt =
  get_result :: "exn + response"
  open_error :: "exn option"
  write_limit :: nat

text \<open>
  The environment is asked once per request, with the number of requests made so far
  and the URL, so it may answer the same URL differently each time.
\<close>

type_synonym environment = "nat \<Rightarrow> string \<Rightarrow> attempt"

datatype group = MainFiles | LoRAs | ControlNets

datatype message =
    MsgExists string
  | MsgDownloading string
  | MsgURL string
  | MsgDownloaded path
  | MsgError string exn
  | MsgPackNotFound string
  | MsgAvailablePacks "string list"
  | MsgRule nat
  | MsgPackDownloading string
  | MsgPackDescription string
  | MsgGroupHeader group
  | MsgSkipOptional group string
  | MsgPackSuccess string
  | MsgPackErrors string
  | MsgListTitle
  | MsgListKey string
  | MsgListName string
  | MsgListDescription string
  | MsgListIncludes nat "nat option" "nat option"
  | MsgListEstimatedSize rat

text \<open>
  \<open>fs\<close> maps each existing path to its content, \<open>requests\<close> is the URLs
  requested with \<open>requests.get\<close>, in order, \<open>calls\<close> is the trace of the
  invocations of \<open>download_file\<close> (URL and destination), and \<open>stdout\<close> is the
  lines printed. The progress bar goes to the standard error and is left out.
\<close>

record world =
  fs :: "path \<rightharpoonup> string"
  requests :: "string list"
  calls :: "(string \<times> path) list"
  stdout :: "message list"

definition print :: "message \<Rightarrow> world \<Rightarrow> world" where
  "print m w = w\<lparr>stdout := stdout w @ [m]\<rparr>"

definition exists :: "world \<Rightarrow> path \<Rightarrow> bool" where
  "exists w p = (fs w p \<noteq> None)"

definition unlink :: "path \<Rightarrow> world \<Rightarrow> world" where
  "unlink p w = w\<lparr>fs := (fs w)(p := None)\<rparr>"

subsection \<open>download\_file\<close>

text \<open>\<open>response.raise_for_status()\<close>: a 4xx or 5xx status raises \<open>HTTPError\<close>.\<close>

definition raise_for_status :: "response \<Rightarrow> exn option" where
  "raise_for_status r =
     (if 400 \<le> status_code r \<and> status_code r < 600 then Some (HTTPError (status_code r))
      else None)"

text \<open>\<open>int(response.headers.get('content-length', 0))\<close>.\<close>

definition total_size :: "response \<Rightarrow> exn + int" where
  "total_size r =
     (case content_length r of
        Absent \<Rightarrow> Inr 0
      | Numeric n \<Rightarrow> Inr n
      | Malformed \<Rightarrow> Inl ValueError)"

text \<open>
  The loop over \<open>response.iter_content\<close>: an empty chunk is skipped, any other is
  written to the open file. The first argument is the number of writes that still
  succeed. The result is the exception that ended the loop, if any, and the world.
\<close>

fun write_chunks :: "nat \<Rightarrow> path \<Rightarrow> string list \<Rightarrow> exn option \<Rightarrow> world \<Rightarrow> exn option \<times> world" where
  "write_chunks budget destination [] err w = (err, w)"
| "write_chunks budget destination (chunk # rest) err w =
     (if chunk = [] then write_chunks budget destination rest err w
      else (case budget of
              0 \<Rightarrow> (Some OSError, w)
            | Suc n \<Rightarrow>
                write_chunks n destination rest err
                  (w\<lparr>fs := (fs w)(destination \<mapsto> (case fs w destination of None \<Rightarrow> chunk | Some old \<Rightarrow> old @ chunk))\<rparr>)))"

text \<open>
  The body of the \<open>try\<close> block (lines 391 to 409). \<open>None\<close> is the normal end, at
  \<open>return True\<close>; \<open>Some e\<close> is the exception raised, with the world at that point.
\<close>

definition transfer :: "attempt \<Rightarrow> path \<Rightarrow> world \<Rightarrow> exn option \<times> world" where
  "transfer a destination w =
     (case get_result a of
        Inl e \<Rightarrow> (Some e, w)
      | Inr r \<Rightarrow>
          (case raise_for_status r of
             Some e \<Rightarrow> (Some e, w)
           | None \<Rightarrow>
               (case total_size r of
                  Inl e \<Rightarrow> (Some e, w)
                | Inr n \<Rightarrow>
                    (case open_error a of
                       Some e \<Rightarrow> (Some e, w)
                     | None \<Rightarrow>
                         (case write_chunks (write_limit a) destination (body r) (body_error r)
                                 (w\<lparr>fs := (fs w)(destination \<mapsto> [])\<rparr>) of
                            (Some e, w') \<Rightarrow> (Some e, w')
                          | (None, w') \<Rightarrow> (None, print (MsgDownloaded destination) w'))))))"

text \<open>
  \<open>download_file\<close>: the existence check, the request, and the handler
  \<open>except Exception\<close>, which prints the error, deletes the destination if it exists
  and returns \<open>False\<close>. \<open>description or destination.name\<close> takes the name when the
  description is \<open>None\<close> or empty.
\<close>

definition download_file :: "environment \<Rightarrow> string \<Rightarrow> path \<Rightarrow> string option \<Rightarrow> world \<Rightarrow> bool \<times> world" where
  "download_file env u destination descr w0 =
     (let w = w0\<lparr>calls := calls w0 @ [(u, destination)]\<rparr> in
      if exists w destination then (True, print (MsgExists (path_name destination)) w)
      else
        (let w1 = print (MsgDownloading
                     (case descr of None \<Rightarrow> path_name destination
                      | Some d \<Rightarrow> if d = [] then path_name destination else d)) w;
             w2 = print (MsgURL u) w1;
             a = env (length (requests w2)) u;
             w3 = w2\<lparr>requests := requests w2 @ [u]\<rparr>
         in (case transfer a destination w3 of
               (None, w4) \<Rightarrow> (True, w4)
             | (Some e, w4) \<Rightarrow>
                 (let w5 = print (MsgError (path_name destination) e) w4
                  in (False, if exists w5 destination then unlink destination w5 else w5)))))"



subsection \<open>download\_model\_pack\<close>

text \<open>\<open>info.get('optional', False)\<close> and \<open>info.get('size', 'unknown size')\<close>.\<close>

definition is_optional :: "file_info \<Rightarrow> bool" where
  "is_optional info = (case optional info of None \<Rightarrow> False | Some b \<Rightarrow> b)"

definition size_or_unknown :: "file_info \<Rightarrow> string" where
  "size_or_unknown info = (case size_label info of None \<Rightarrow> ''unknown size'' | Some s \<Rightarrow> s)"

text \<open>The description handed to \<open>download_file\<close>: \<open>f"{file_name} ({size})"\<close>.\<close>

definition describe :: "string \<Rightarrow> file_info \<Rightarrow> string" where
  "describe k info = k @ '' ('' @ size_or_unknown info @ '')''"

text \<open>
  The three \<open>for\<close> loops of \<open>download_model_pack\<close> differ only in the text of the
  skip message and in that the loop over the main files alone clears \<open>success\<close>
  (lines 441 to 443; the two other loops drop the result of \<open>download_file\<close>). They
  are one function with the group as an argument. \<open>so\<close> is \<open>skip_optional\<close>.
\<close>

fun download_group :: "group \<Rightarrow> environment \<Rightarrow> bool \<Rightarrow> file_group \<Rightarrow> bool \<Rightarrow> world \<Rightarrow> bool \<times> world" where
  "download_group g env so [] success w = (success, w)"
| "download_group g env so ((k, info) # rest) success w =
     (if so \<and> is_optional info
      then download_group g env so rest success (print (MsgSkipOptional g k) w)
      else (case download_file env (url info) (path info) (Some (describe k info)) w of
              (ok, w') \<Rightarrow>
                download_group g env so rest
                  (if g = MainFiles \<and> \<not> ok \<and> \<not> is_optional info then False else success) w'))"

text \<open>Lines 426 to 429: the banner with the pack's name and description.\<close>

definition print_pack_header :: "model_pack \<Rightarrow> world \<Rightarrow> world" where
  "print_pack_header pack w =
     print (MsgRule 60)
       (print (MsgPackDescription (description pack))
          (print (MsgPackDownloading (name pack))
             (print (MsgRule 60) w)))"

text \<open>
  Lines 425 to 474: the pack is known. \<open>sl\<close> is \<open>skip_loras\<close>, \<open>sc\<close> is
  \<open>skip_controlnet\<close>. The group \<open>embeddings\<close> of a pack is read nowhere.
\<close>

definition download_pack :: "environment \<Rightarrow> model_pack \<Rightarrow> bool \<Rightarrow> bool \<Rightarrow> bool \<Rightarrow> world \<Rightarrow> bool \<times> world" where
  "download_pack env pack so sl sc w =
     (let w1 = print_pack_header pack w;
          w2 = print (MsgGroupHeader MainFiles) w1;
          (success1, w3) = download_group MainFiles env so (files pack) True w2;
          (success2, w4) =
            (case loras pack of
               None \<Rightarrow> (success1, w3)
             | Some entries \<Rightarrow>
                 if \<not> sl
                 then download_group LoRAs env so entries success1 (print (MsgGroupHeader LoRAs) w3)
                 else (success1, w3));
          (success3, w5) =
            (case controlnet pack of
               None \<Rightarrow> (success2, w4)
             | Some entries \<Rightarrow>
                 if \<not> sc
                 then download_group ControlNets env so entries success2 (print (MsgGroupHeader ControlNets) w4)
                 else (success2, w4));
          w6 = print (MsgRule 60) w5;
          w7 = print (if success3 then MsgPackSuccess (name pack) else MsgPackErrors (name pack)) w6;
          w8 = print (MsgRule 60) w7
      in (success3, w8))"

definition download_model_pack :: "path \<Rightarrow> environment \<Rightarrow> string \<Rightarrow> bool \<Rightarrow> bool \<Rightarrow> bool \<Rightarrow> world \<Rightarrow> bool \<times> world" where
  "download_model_pack MODEL_DIR env pack_name so sl sc w =
     (case map_of (MODEL_PACKS MODEL_DIR) pack_name of
        None \<Rightarrow>
          (False,
           print (MsgAvailablePacks (map fst (MODEL_PACKS MODEL_DIR)))
             (print (MsgPackNotFound pack_name) w))
      | Some pack \<Rightarrow> download_pack env pack so sl sc w)"

subsection \<open>list\_model\_packs\<close>

text \<open>\<open>'GB' in s\<close>.\<close>

fun contains_GB :: "string \<Rightarrow> bool" where
  "contains_GB (a # b # cs) = ((a = CHR ''G'' \<and> b = CHR ''B'') \<or> contains_GB (b # cs))"
| "contains_GB cs = False"

text \<open>\<open>s.split()[0]\<close>: the first run of characters that are not whitespace.\<close>

definition is_space :: "char \<Rightarrow> bool" where
  "is_space c = (c = CHR '' '' \<or> c = CHR 0x09 \<or> c = CHR 0x0A \<or> c = CHR 0x0B \<or> c = CHR 0x0C \<or> c = CHR 0x0D)"

definition first_token :: "string \<Rightarrow> exn + string" where
  "first_token s =
     (let t = takeWhile (\<lambda>c. \<not> is_space c) (dropWhile is_space s)
      in if t = [] then Inl IndexError else Inr t)"

text \<open>
  \<open>float(token)\<close> for the tokens written as decimal digits with at most one point,
  which is what every size label of the catalog has; the value is the exact decimal,
  where Python has the nearest double. Any other token is \<open>ValueError\<close> here.
\<close>

definition is_digit :: "char \<Rightarrow> bool" where
  "is_digit c = (48 \<le> (of_char c :: nat) \<and> (of_char c :: nat) \<le> 57)"

definition digits_value :: "string \<Rightarrow> nat" where
  "digits_value ds = foldl (\<lambda>acc c. 10 * acc + (of_char c - 48)) 0 ds"

definition float_of_token :: "string \<Rightarrow> exn + rat" where
  "float_of_token t =
     (let ip = takeWhile (\<lambda>c. c \<noteq> CHR ''.'') t;
          fp = drop 1 (dropWhile (\<lambda>c. c \<noteq> CHR ''.'') t)
      in if list_all is_digit ip \<and> list_all is_digit fp \<and> (ip \<noteq> [] \<or> fp \<noteq> [])
         then Inr (of_nat (digits_value ip) + of_nat (digits_value fp) / 10 ^ length fp)
         else Inl ValueError)"

text \<open>
  The generator summed at lines 500 to 504, over \<open>pack['files'].values()\<close>: an entry
  counts when \<open>'GB' in f.get('size', '')\<close>, with
  \<open>float(f.get('size', '0 GB').split()[0])\<close>.
\<close>

fun sum_sizes :: "rat \<Rightarrow> file_info list \<Rightarrow> exn + rat" where
  "sum_sizes acc [] = Inr acc"
| "sum_sizes acc (f # rest) =
     (if contains_GB (case size_label f of None \<Rightarrow> [] | Some s \<Rightarrow> s)
      then (case first_token (case size_label f of None \<Rightarrow> ''0 GB'' | Some s \<Rightarrow> s) of
              Inl e \<Rightarrow> Inl e
            | Inr t \<Rightarrow>
                (case float_of_token t of
                   Inl e \<Rightarrow> Inl e
                 | Inr x \<Rightarrow> sum_sizes (acc + x) rest))
      else sum_sizes acc rest)"

definition estimated_size :: "model_pack \<Rightarrow> exn + rat" where
  "estimated_size pack = sum_sizes 0 (map snd (files pack))"

text \<open>
  \<open>f"{total_size:.1f}"\<close>: the number with one decimal that is nearest to the sum,
  a tie going to the even digit. \<open>MsgListEstimatedSize\<close> carries this number. On
  exact decimals a tie is a sum that ends in 5 at the second decimal; no pack of the
  catalog has one, so the digit printed does not depend on how the doubles round.
\<close>

definition format_1f :: "rat \<Rightarrow> rat" where
  "format_1f x =
     (let t = x * 10;
          f = \<lfloor>t\<rfloor>;
          r = t - of_int f
      in of_int (if r < 1 / 2 then f
                 else if 1 / 2 < r then f + 1
                 else if even f then f else f + 1) / 10)"

text \<open>
  The loop of \<open>list_model_packs\<close> over \<open>MODEL_PACKS.items()\<close>. The line
  \<open>Includes\<close> names the LoRAs and the ControlNets only when their count is positive.
\<close>

fun list_packs_loop :: "(string \<times> model_pack) list \<Rightarrow> world \<Rightarrow> exn option \<times> world" where
  "list_packs_loop [] w = (None, w)"
| "list_packs_loop ((pack_name, pack) # rest) w =
     (let w1 = print (MsgListKey pack_name) w;
          w2 = print (MsgListName (name pack)) w1;
          w3 = print (MsgListDescription (description pack)) w2;
          main_files = length (files pack);
          n_loras = (case loras pack of None \<Rightarrow> 0 | Some entries \<Rightarrow> length entries);
          n_controlnets = (case controlnet pack of None \<Rightarrow> 0 | Some entries \<Rightarrow> length entries);
          w4 = print (MsgListIncludes main_files
                        (if n_loras > 0 then Some n_loras else None)
                        (if n_controlnets > 0 then Some n_controlnets else None)) w3
      in (case estimated_size pack of
            Inl e \<Rightarrow> (Some e, w4)
          | Inr x \<Rightarrow> list_packs_loop rest (print (MsgListEstimatedSize (format_1f x)) w4)))"

definition list_model_packs :: "path \<Rightarrow> world \<Rightarrow> exn option \<times> world" where
  "list_model_packs MODEL_DIR w =
     (case list_packs_loop (MODEL_PACKS MODEL_DIR) (print (MsgRule 80) (print MsgListTitle w)) of
        (Some e, w') \<Rightarrow> (Some e, w')
      | (None, w') \<Rightarrow> (None, print (MsgRule 80) w'))"

subsection \<open>The command line\<close>

text \<open>
  The namespace that \<open>argparse\<close> builds. The positional argument has
  \<open>choices = list(MODEL_PACKS.keys()) + ['list']\<close>; a value outside the choices ends
  the process in \<open>parse_args\<close> with exit status 2. An exception that leaves the
  script ends it with exit status 1.
\<close>

record args =
  args_pack :: string
  args_skip_optional :: bool
  args_skip_loras :: bool
  args_skip_controlnet :: bool

definition choices :: "path \<Rightarrow> string list" where
  "choices MODEL_DIR = map fst (MODEL_PACKS MODEL_DIR) @ [''list'']"

definition main :: "path \<Rightarrow> environment \<Rightarrow> args \<Rightarrow> world \<Rightarrow> nat \<times> world" where
  "main MODEL_DIR env a w =
     (if args_pack a \<notin> set (choices MODEL_DIR) then (2, w)
      else if args_pack a = ''list''
      then (case list_model_packs MODEL_DIR w of
              (None, w') \<Rightarrow> (0, w')
            | (Some e, w') \<Rightarrow> (1, w'))
      else (case download_model_pack MODEL_DIR env (args_pack a)
                   (args_skip_optional a) (args_skip_loras a) (args_skip_controlnet a) w of
              (success, w') \<Rightarrow> (if success then 0 else 1, w')))"

section \<open>Notions used by the properties\<close>

text \<open>The URL and the destination that \<open>download_file\<close> is called with for an entry.\<close>

definition target :: "string \<times> file_info \<Rightarrow> string \<times> path" where
  "target e = (url (snd e), path (snd e))"

text \<open>
  The fetch plan in the words of the specification: \<open>skip_optional\<close> leaves out every
  entry flagged optional, in each group; \<open>skip_loras\<close> and \<open>skip_controlnet\<close> leave
  out the whole group; the groups come in the order main files, LoRAs, ControlNets.
\<close>

definition selected :: "bool \<Rightarrow> file_group \<Rightarrow> file_group" where
  "selected so entries = filter (\<lambda>e. \<not> (so \<and> is_optional (snd e))) entries"

definition fetch_plan :: "model_pack \<Rightarrow> bool \<Rightarrow> bool \<Rightarrow> bool \<Rightarrow> file_group" where
  "fetch_plan pack so sl sc =
     selected so (files pack)
     @ (if sl then [] else selected so (case loras pack of None \<Rightarrow> [] | Some entries \<Rightarrow> entries))
     @ (if sc then [] else selected so (case controlnet pack of None \<Rightarrow> [] | Some entries \<Rightarrow> entries))"

text \<open>
  The estimate in the words of the specification: the sum of the numeric parts of
  the size labels of the pack that are in GB, whatever the group of the entry.
\<close>

definition spec_estimated_size :: "model_pack \<Rightarrow> exn + rat" where
  "spec_estimated_size pack =
     sum_sizes 0 (map snd
       (files pack
        @ (case loras pack of None \<Rightarrow> [] | Some entries \<Rightarrow> entries)
        @ (case controlnet pack of None \<Rightarrow> [] | Some entries \<Rightarrow> entries)
        @ (case embeddings pack of None \<Rightarrow> [] | Some entries \<Rightarrow> entries)))"

text \<open>The error reports of \<open>download_file\<close> among the lines printed so far.\<close>

definition is_download_error :: "message \<Rightarrow> bool" where
  "is_download_error m = (case m of MsgError n e \<Rightarrow> True | _ \<Rightarrow> False)"

definition download_errors :: "world \<Rightarrow> message list" where
  "download_errors w = filter is_download_error (stdout w)"

text \<open>
  Concrete inputs: a pack with a required LoRA and a required ControlNet, which the
  catalog does not have; an empty disk; a server that answers every
  request with status 200 and one chunk; a network that is down; a server that
  answers 404; a connection that breaks after the first chunk.
\<close>

definition pack_required_extras :: model_pack where
  "pack_required_extras =
     \<lparr>name = ''Required extras'',
      description = ''A pack whose LoRA and ControlNet entries are not optional'',
      files =
        [(''checkpoint'',
          \<lparr>url = ''http://h/checkpoint'', path = [''m'', ''checkpoints'', ''c.safetensors''],
           size_label = Some ''1.5 GB'', optional = None\<rparr>)],
      loras = Some
        [(''style'',
          \<lparr>url = ''http://h/style'', path = [''m'', ''loras'', ''style.safetensors''],
           size_label = Some ''20 MB'', optional = None\<rparr>)],
      controlnet = Some
        [(''canny'',
          \<lparr>url = ''http://h/canny'', path = [''m'', ''controlnet'', ''canny.pth''],
           size_label = Some ''1.45 GB'', optional = Some False\<rparr>)],
      embeddings = None\<rparr>"

definition world0 :: world where
  "world0 = \<lparr>fs = Map.empty, requests = [], calls = [], stdout = []\<rparr>"

definition ok_response :: response where
  "ok_response = \<lparr>status_code = 200, content_length = Absent, body = [''w''], body_error = None\<rparr>"

definition env_ok :: environment where
  "env_ok n u = \<lparr>get_result = Inr ok_response, open_error = None, write_limit = 1\<rparr>"

definition env_down :: environment where
  "env_down n u = \<lparr>get_result = Inl ConnectionError, open_error = None, write_limit = 0\<rparr>"


definition env_broken :: environment where
  "env_broken n u = \<lparr>get_result = Inr (ok_response\<lparr>body_error := Some ConnectionError\<rparr>),
                     open_error = None, write_limit = 1\<rparr>"

section \<open>Properties\<close>

subsection \<open>One file\<close>

lemma print_simps [simp]:
  "fs (print m w) = fs w"
  "requests (print m w) = requests w"
  "calls (print m w) = calls w"
  "stdout (print m w) = stdout w @ [m]"
  "exists (print m w) p = exists w p"
  by (simp_all add: print_def exists_def)

lemma write_chunks_frame:
  "requests (snd (write_chunks budget d cs err w)) = requests w \<and>
   calls (snd (write_chunks budget d cs err w)) = calls w \<and>
   stdout (snd (write_chunks budget d cs err w)) = stdout w \<and>
   (\<forall>p. p \<noteq> d \<longrightarrow> fs (snd (write_chunks budget d cs err w)) p = fs w p) \<and>
   (fs w d \<noteq> None \<longrightarrow> fs (snd (write_chunks budget d cs err w)) d \<noteq> None)"
proof (induction budget d cs err w rule: write_chunks.induct)
  case (1 budget d err w)
  show ?case by simp
next
  case (2 budget d chunk rest err w)
  show ?case
  proof (cases "chunk = []")
    case True
    with 2 show ?thesis by simp
  next
    case False
    show ?thesis
    proof (cases budget)
      case 0
      with False show ?thesis by simp
    next
      case (Suc n)
      with False 2(2)[OF False Suc] show ?thesis by simp
    qed
  qed
qed

lemma write_chunks_fst:
  "fst (write_chunks budget d cs err w) = fst (write_chunks budget d cs err w')"
proof (induction budget d cs err w arbitrary: w' rule: write_chunks.induct)
  case (1 budget d err w)
  show ?case by simp
next
  case (2 budget d chunk rest err w)
  show ?case
  proof (cases "chunk = []")
    case True
    with 2(1) show ?thesis by simp
  next
    case False
    show ?thesis
    proof (cases budget)
      case 0
      with False show ?thesis by simp
    next
      case (Suc n)
      with False 2(2)[OF False Suc] show ?thesis by simp
    qed
  qed
qed

lemma transfer_unfold:
  "transfer a d w =
     (case get_result a of
        Inl e \<Rightarrow> (Some e, w)
      | Inr r \<Rightarrow>
          if raise_for_status r \<noteq> None then (raise_for_status r, w)
          else if content_length r = Malformed then (Some ValueError, w)
          else if open_error a \<noteq> None then (open_error a, w)
          else (fst (write_chunks (write_limit a) d (body r) (body_error r) (w\<lparr>fs := (fs w)(d \<mapsto> [])\<rparr>)),
                if fst (write_chunks (write_limit a) d (body r) (body_error r) (w\<lparr>fs := (fs w)(d \<mapsto> [])\<rparr>)) = None
                then print (MsgDownloaded d) (snd (write_chunks (write_limit a) d (body r) (body_error r) (w\<lparr>fs := (fs w)(d \<mapsto> [])\<rparr>)))
                else snd (write_chunks (write_limit a) d (body r) (body_error r) (w\<lparr>fs := (fs w)(d \<mapsto> [])\<rparr>))))"
  by (auto simp: transfer_def total_size_def split: sum.splits option.splits prod.splits header.splits)

lemma transfer_fst: "fst (transfer a d w) = fst (transfer a d w')"
  using write_chunks_fst[of "write_limit a" d _ _ "w\<lparr>fs := (fs w)(d \<mapsto> [])\<rparr>" "w'\<lparr>fs := (fs w')(d \<mapsto> [])\<rparr>"]
  by (simp add: transfer_unfold split: sum.splits)

lemma transfer_frame:
  "requests (snd (transfer a d w)) = requests w \<and>
   calls (snd (transfer a d w)) = calls w \<and>
   (\<forall>p. p \<noteq> d \<longrightarrow> fs (snd (transfer a d w)) p = fs w p) \<and>
   (fst (transfer a d w) = None \<longrightarrow>
      fs (snd (transfer a d w)) d \<noteq> None \<and> stdout (snd (transfer a d w)) = stdout w @ [MsgDownloaded d]) \<and>
   (fst (transfer a d w) \<noteq> None \<longrightarrow> stdout (snd (transfer a d w)) = stdout w)"
  using write_chunks_frame[of "write_limit a" d _ _ "w\<lparr>fs := (fs w)(d \<mapsto> [])\<rparr>"]
  by (simp add: transfer_unfold split: sum.splits)


lemma download_errors_print [simp]:
  "download_errors (print m w) = download_errors w @ (if is_download_error m then [m] else [])"
  by (simp add: download_errors_def)

lemma download_file_summary:
  "calls (snd (download_file env u d descr w)) = calls w @ [(u, d)] \<and>
   requests (snd (download_file env u d descr w)) = (if exists w d then requests w else requests w @ [u]) \<and>
   fst (download_file env u d descr w) = (exists w d \<or> fst (transfer (env (length (requests w)) u) d w) = None) \<and>
   (\<forall>p. p \<noteq> d \<longrightarrow> fs (snd (download_file env u d descr w)) p = fs w p) \<and>
   (exists w d \<longrightarrow> fs (snd (download_file env u d descr w)) = fs w) \<and>
   exists (snd (download_file env u d descr w)) d = fst (download_file env u d descr w) \<and>
   (\<exists>e. download_errors (snd (download_file env u d descr w)) =
     download_errors w @ (if fst (download_file env u d descr w) then [] else [MsgError (path_name d) e]))"
proof -
  define m where "m = MsgDownloading (case descr of None \<Rightarrow> path_name d
                      | Some t \<Rightarrow> if t = [] then path_name d else t)"
  define w3 where "w3 = (print (MsgURL u) (print m (w\<lparr>calls := calls w @ [(u, d)]\<rparr>)))\<lparr>requests := requests w @ [u]\<rparr>"
  define x where "x = transfer (env (length (requests w)) u) d w3"
  have w3: "requests w3 = requests w @ [u]" "calls w3 = calls w @ [(u, d)]" "fs w3 = fs w"
    "stdout w3 = stdout w @ [m, MsgURL u]"
    by (simp_all add: w3_def)
  have fx: "fst x = fst (transfer (env (length (requests w)) u) d w)"
    unfolding x_def by (rule transfer_fst)
  have fr: "requests (snd x) = requests w @ [u]" "calls (snd x) = calls w @ [(u, d)]"
    "\<And>p. p \<noteq> d \<Longrightarrow> fs (snd x) p = fs w p"
    "fst x = None \<Longrightarrow> fs (snd x) d \<noteq> None"
    "fst x = None \<Longrightarrow> stdout (snd x) = stdout w @ [m, MsgURL u, MsgDownloaded d]"
    "fst x \<noteq> None \<Longrightarrow> stdout (snd x) = stdout w @ [m, MsgURL u]"
    using transfer_frame[of "env (length (requests w)) u" d w3]
    by (simp_all add: x_def[symmetric] w3)
  have r: "download_file env u d descr w =
     (if exists w d
      then (True, print (MsgExists (path_name d)) (w\<lparr>calls := calls w @ [(u, d)]\<rparr>))
      else if fst x = None then (True, snd x)
      else (False,
                  if exists (print (MsgError (path_name d) (the (fst x))) (snd x)) d
                  then unlink d (print (MsgError (path_name d) (the (fst x))) (snd x))
                  else print (MsgError (path_name d) (the (fst x))) (snd x)))"
    by (auto simp: download_file_def Let_def exists_def x_def w3_def m_def split: prod.splits option.splits)
  have me: "\<not> is_download_error m" "\<not> is_download_error (MsgURL u)" "\<not> is_download_error (MsgDownloaded d)"
     "\<not> is_download_error (MsgExists (path_name d))" "is_download_error (MsgError (path_name d) (the (fst x)))"
    by (simp_all add: is_download_error_def m_def)
  show ?thesis
    unfolding r fx[symmetric]
    using fr me
    by (auto simp: unlink_def exists_def download_errors_def print_def)
qed


lemma download_file_monotone:
  "exists w p \<Longrightarrow> exists (snd (download_file env u d descr w)) p"
  using download_file_summary[of env u d descr w]
  by (cases "p = d") (auto simp: exists_def)

lemma download_group_skip:
  "so \<and> is_optional info \<Longrightarrow>
   download_group g env so ((k, info) # rest) success w =
     download_group g env so rest success (print (MsgSkipOptional g k) w)"
  by simp

lemma download_group_fetch:
  "\<not> (so \<and> is_optional info) \<Longrightarrow>
   download_group g env so ((k, info) # rest) success w =
     download_group g env so rest
             (if g = MainFiles \<and> \<not> fst (download_file env (url info) (path info) (Some (describe k info)) w)
                 \<and> \<not> is_optional info then False else success)
             (snd (download_file env (url info) (path info) (Some (describe k info)) w))"
  by (auto simp: case_prod_unfold)

lemma selected_skip: "so \<and> is_optional info \<Longrightarrow> selected so ((k, info) # rest) = selected so rest"
  by (simp add: selected_def)

lemma selected_fetch: "\<not> (so \<and> is_optional info) \<Longrightarrow> selected so ((k, info) # rest) = (k, info) # selected so rest"
  by (simp add: selected_def)

declare download_group.simps(2) [simp del]

lemma download_group_snd:
  "snd (download_group g env so es s w) = snd (download_group g env so es s' w)"
proof (induction es arbitrary: s s' w)
  case Nil
  show ?case by simp
next
  case (Cons a es)
  obtain k info where a: "a = (k, info)" by (cases a)
  show ?case
  proof (cases "so \<and> is_optional info")
    case True
    show ?thesis
      unfolding a download_group_skip[OF True] by (rule Cons.IH)
  next
    case False
    show ?thesis
      unfolding a download_group_fetch[OF False] by (rule Cons.IH)
  qed
qed

lemma download_group_calls:
  "calls (snd (download_group g env so es s w)) = calls w @ map target (selected so es)"
proof (induction es arbitrary: s w)
  case Nil
  show ?case by (simp add: selected_def)
next
  case (Cons a es)
  obtain k info where a: "a = (k, info)" by (cases a)
  show ?case
  proof (cases "so \<and> is_optional info")
    case True
    show ?thesis
      unfolding a download_group_skip[OF True] selected_skip[OF True] Cons.IH by simp
  next
    case False
    have "calls (snd (download_file env (url info) (path info) (Some (describe k info)) w))
        = calls w @ [(url info, path info)]"
      using download_file_summary[of env "url info" "path info" "Some (describe k info)" w] by blast
    then show ?thesis
      unfolding a download_group_fetch[OF False] selected_fetch[OF False] Cons.IH
      by (simp add: target_def)
  qed
qed

lemma download_group_other:
  "g \<noteq> MainFiles \<Longrightarrow> fst (download_group g env so es s w) = s"
proof (induction es arbitrary: s w)
  case Nil
  show ?case by simp
next
  case (Cons a es)
  obtain k info where a: "a = (k, info)" by (cases a)
  show ?case
  proof (cases "so \<and> is_optional info")
    case True
    show ?thesis
      unfolding a download_group_skip[OF True] by (rule Cons.IH[OF Cons.prems])
  next
    case False
    show ?thesis
      unfolding a download_group_fetch[OF False] Cons.IH[OF Cons.prems]
      using Cons.prems by simp
  qed
qed

lemma download_group_monotone:
  "exists w p \<Longrightarrow> exists (snd (download_group g env so es s w)) p"
proof (induction es arbitrary: s w)
  case Nil
  then show ?case by simp
next
  case (Cons a es)
  obtain k info where a: "a = (k, info)" by (cases a)
  show ?case
  proof (cases "so \<and> is_optional info")
    case True
    have "exists (print (MsgSkipOptional g k) w) p" using Cons.prems by simp
    then show ?thesis
      unfolding a download_group_skip[OF True] by (rule Cons.IH)
  next
    case False
    have "exists (snd (download_file env (url info) (path info) (Some (describe k info)) w)) p"
      using Cons.prems by (rule download_file_monotone)
    then show ?thesis
      unfolding a download_group_fetch[OF False] by (rule Cons.IH)
  qed
qed

lemma download_group_idle:
  "\<forall>e \<in> set (selected so es). exists w (path (snd e)) \<Longrightarrow>
   requests (snd (download_group g env so es s w)) = requests w \<and>
   fs (snd (download_group g env so es s w)) = fs w"
proof (induction es arbitrary: s w)
  case Nil
  show ?case by simp
next
  case (Cons a es)
  obtain k info where a: "a = (k, info)" by (cases a)
  show ?case
  proof (cases "so \<and> is_optional info")
    case True
    have "\<forall>e \<in> set (selected so es). exists (print (MsgSkipOptional g k) w) (path (snd e))"
      using Cons.prems unfolding a selected_skip[OF True] by simp
    from Cons.IH[OF this] show ?thesis
      unfolding a download_group_skip[OF True] by simp
  next
    case False
    let ?r = "download_file env (url info) (path info) (Some (describe k info)) w"
    have pre: "exists w (path info)" "\<forall>e \<in> set (selected so es). exists w (path (snd e))"
      using Cons.prems unfolding a selected_fetch[OF False] by simp_all
    have same: "fs (snd ?r) = fs w" "requests (snd ?r) = requests w"
      using download_file_summary[of env "url info" "path info" "Some (describe k info)" w] pre(1)
      by simp_all
    have "\<forall>e \<in> set (selected so es). exists (snd ?r) (path (snd e))"
      using pre(2) by (simp add: exists_def same)
    from Cons.IH[OF this] same show ?thesis
      unfolding a download_group_fetch[OF False] by simp
  qed
qed

lemma download_group_errors:
  "\<exists>errs. download_errors (snd (download_group g env so es s w)) = download_errors w @ errs \<and>
      (errs = [] \<longrightarrow> (\<forall>e \<in> set (selected so es). exists (snd (download_group g env so es s w)) (path (snd e))))"
proof (induction es arbitrary: s w)
  case Nil
  show ?case by (simp add: selected_def)
next
  case (Cons a es)
  obtain k info where a: "a = (k, info)" by (cases a)
  show ?case
  proof (cases "so \<and> is_optional info")
    case True
    have "download_errors (print (MsgSkipOptional g k) w) = download_errors w"
      by (simp add: is_download_error_def)
    with Cons.IH[of s "print (MsgSkipOptional g k) w"] show ?thesis
      unfolding a download_group_skip[OF True] selected_skip[OF True] by simp
  next
    case False
    let ?r = "download_file env (url info) (path info) (Some (describe k info)) w"
    let ?s = "if g = MainFiles \<and> \<not> fst ?r \<and> \<not> is_optional info then False else s"
    let ?w = "snd (download_group g env so es ?s (snd ?r))"
    obtain e1 where e1: "download_errors (snd ?r) = download_errors w @ (if fst ?r then [] else [MsgError (path_name (path info)) e1])"
      and ex: "exists (snd ?r) (path info) = fst ?r"
      using download_file_summary[of env "url info" "path info" "Some (describe k info)" w] by blast
    obtain errs where errs: "download_errors ?w = download_errors (snd ?r) @ errs"
      and all: "errs = [] \<longrightarrow> (\<forall>e \<in> set (selected so es). exists ?w (path (snd e)))"
      using Cons.IH[of ?s "snd ?r"] by blast
    show ?thesis
    proof (cases "fst ?r")
      case True
      with ex have here: "exists ?w (path info)"
        by (simp add: download_group_monotone)
      have "download_errors ?w = download_errors w @ errs"
        using errs e1 True by simp
      with here all show ?thesis
        unfolding a download_group_fetch[OF False] selected_fetch[OF False]
        by (intro exI[of _ errs]) simp
    next
      case False2: False
      have "download_errors ?w = download_errors w @ (MsgError (path_name (path info)) e1 # errs)"
        using errs e1 False2 by simp
      then show ?thesis
        unfolding a download_group_fetch[OF False]
        by (intro exI[of _ "MsgError (path_name (path info)) e1 # errs"]) simp
    qed
  qed
qed


lemma download_group_main_result:
  "fst (download_group MainFiles env so es s w) =
     (s \<and> (\<forall>i<length es. is_optional (snd (es ! i)) \<or>
        fst (download_file env (url (snd (es ! i))) (path (snd (es ! i)))
               (Some (describe (fst (es ! i)) (snd (es ! i))))
               (snd (download_group MainFiles env so (take i es) True w)))))"
proof (induction es arbitrary: s w)
  case Nil
  show ?case by simp
next
  case (Cons a es)
  obtain k info where a: "a = (k, info)" by (cases a)
  show ?case
  proof (cases "so \<and> is_optional info")
    case True
    have sk: "\<And>xs t. download_group MainFiles env so ((k, info) # xs) t w =
        download_group MainFiles env so xs t (print (MsgSkipOptional MainFiles k) w)"
      using True by (rule download_group_skip)
    have opt: "is_optional info" using True by simp
    show ?thesis
      unfolding a length_Cons All_less_Suc2
      by (simp add: sk opt Cons.IH[of s])
  next
    case False
    let ?r = "download_file env (url info) (path info) (Some (describe k info)) w"
    have fe: "\<And>xs t. download_group MainFiles env so ((k, info) # xs) t w =
        download_group MainFiles env so xs
          (if MainFiles = MainFiles \<and> \<not> fst ?r \<and> \<not> is_optional info then False else t) (snd ?r)"
      using False by (rule download_group_fetch)
    show ?thesis
    proof (cases "\<not> fst ?r \<and> \<not> is_optional info")
      case bad: True
      then show ?thesis
        unfolding a length_Cons All_less_Suc2
        by (simp add: fe Cons.IH[of _ "snd ?r"])
    next
      case good: False
      then have g: "fst ?r \<or> is_optional info" by blast
      have fe': "\<And>xs t. download_group MainFiles env so ((k, info) # xs) t w =
        download_group MainFiles env so xs t (snd ?r)"
        using good by (auto simp: fe)
      show ?thesis
        unfolding a length_Cons All_less_Suc2
        using g by (auto simp: fe' Cons.IH[of _ "snd ?r"])
    qed
  qed
qed

lemma download_group_requests:
  "\<exists>us. requests (snd (download_group g env so es s w)) = requests w @ us \<and>
        set us \<subseteq> fst ` set (map target (selected so es))"
proof (induction es arbitrary: s w)
  case Nil
  show ?case by simp
next
  case (Cons a es)
  obtain k info where a: "a = (k, info)" by (cases a)
  show ?case
  proof (cases "so \<and> is_optional info")
    case True
    from Cons.IH[of s "print (MsgSkipOptional g k) w"] show ?thesis
      unfolding a download_group_skip[OF True] selected_skip[OF True] by simp
  next
    case False
    let ?r = "download_file env (url info) (path info) (Some (describe k info)) w"
    let ?s = "if g = MainFiles \<and> \<not> fst ?r \<and> \<not> is_optional info then False else s"
    obtain us where us: "requests (snd (download_group g env so es ?s (snd ?r))) = requests (snd ?r) @ us"
      "set us \<subseteq> fst ` set (map target (selected so es))"
      using Cons.IH[of ?s "snd ?r"] by blast
    have r: "requests (snd ?r) = requests w @ (if exists w (path info) then [] else [url info])"
      using download_file_summary[of env "url info" "path info" "Some (describe k info)" w] by simp
    show ?thesis
      unfolding a download_group_fetch[OF False] selected_fetch[OF False]
      using us r
      by (intro exI[of _ "(if exists w (path info) then [] else [url info]) @ us"])
         (auto simp: target_def)
  qed
qed

subsection \<open>One pack\<close>

lemma print_pack_header_simps [simp]:
  "fs (print_pack_header pack w) = fs w"
  "requests (print_pack_header pack w) = requests w"
  "calls (print_pack_header pack w) = calls w"
  "exists (print_pack_header pack w) p = exists w p"
  "download_errors (print_pack_header pack w) = download_errors w"
  by (simp_all add: print_pack_header_def is_download_error_def)

lemma download_pack_summary:
  "fst (download_pack env pack so sl sc w) =
     fst (download_group MainFiles env so (files pack) True
            (print (MsgGroupHeader MainFiles) (print_pack_header pack w))) \<and>
   calls (snd (download_pack env pack so sl sc w)) = calls w @ map target (fetch_plan pack so sl sc) \<and>
   (\<forall>p. exists w p \<longrightarrow> exists (snd (download_pack env pack so sl sc w)) p) \<and>
   ((\<forall>e \<in> set (fetch_plan pack so sl sc). exists w (path (snd e))) \<longrightarrow>
      requests (snd (download_pack env pack so sl sc w)) = requests w \<and>
      fs (snd (download_pack env pack so sl sc w)) = fs w) \<and>
   (\<exists>us. requests (snd (download_pack env pack so sl sc w)) = requests w @ us \<and>
         set us \<subseteq> fst ` set (map target (fetch_plan pack so sl sc))) \<and>
   (\<exists>errs. download_errors (snd (download_pack env pack so sl sc w)) = download_errors w @ errs \<and>
      (errs = [] \<longrightarrow> (\<forall>e \<in> set (fetch_plan pack so sl sc).
          exists (snd (download_pack env pack so sl sc w)) (path (snd e)))))"
proof -
  define ls where "ls = (if sl then [] else case loras pack of None \<Rightarrow> [] | Some entries \<Rightarrow> entries)"
  define cs where "cs = (if sc then [] else case controlnet pack of None \<Rightarrow> [] | Some entries \<Rightarrow> entries)"
  define w2 where "w2 = print (MsgGroupHeader MainFiles) (print_pack_header pack w)"
  define m where "m = download_group MainFiles env so (files pack) True w2"
  define hl where "hl = (if loras pack \<noteq> None \<and> \<not> sl then print (MsgGroupHeader LoRAs) (snd m) else snd m)"
  define l where "l = download_group LoRAs env so ls (fst m) hl"
  define hc where "hc = (if controlnet pack \<noteq> None \<and> \<not> sc then print (MsgGroupHeader ControlNets) (snd l) else snd l)"
  define c where "c = download_group ControlNets env so cs (fst l) hc"
  define w8 where "w8 = print (MsgRule 60)
      (print (if fst c then MsgPackSuccess (name pack) else MsgPackErrors (name pack))
         (print (MsgRule 60) (snd c)))"
  have r: "download_pack env pack so sl sc w = (fst c, w8)"
    by (simp add: download_pack_def Let_def case_prod_unfold w8_def c_def hc_def l_def hl_def m_def w2_def
         ls_def cs_def split: option.splits)
  have plan: "fetch_plan pack so sl sc = selected so (files pack) @ selected so ls @ selected so cs"
    by (simp add: fetch_plan_def ls_def cs_def selected_def)
  have fl: "fst l = fst m" unfolding l_def by (simp add: download_group_other)
  have fc: "fst c = fst m" unfolding c_def fl[symmetric] by (simp add: download_group_other)
  have hl: "fs hl = fs (snd m)" "requests hl = requests (snd m)" "calls hl = calls (snd m)"
      "download_errors hl = download_errors (snd m)"
    by (simp_all add: hl_def is_download_error_def)
  have hc: "fs hc = fs (snd l)" "requests hc = requests (snd l)" "calls hc = calls (snd l)"
      "download_errors hc = download_errors (snd l)"
    by (simp_all add: hc_def is_download_error_def)
  have w2: "fs w2 = fs w" "requests w2 = requests w" "calls w2 = calls w"
      "download_errors w2 = download_errors w"
    by (simp_all add: w2_def is_download_error_def)
  have w8: "fs w8 = fs (snd c)" "requests w8 = requests (snd c)" "calls w8 = calls (snd c)"
      "download_errors w8 = download_errors (snd c)"
    by (simp_all add: w8_def is_download_error_def)
  have ex: "\<And>p. exists hl p = exists (snd m) p" "\<And>p. exists hc p = exists (snd l) p"
      "\<And>p. exists w2 p = exists w p" "\<And>p. exists w8 p = exists (snd c) p"
    by (simp_all add: exists_def hl hc w2 w8)
  have mono_m: "\<And>p. exists w p \<Longrightarrow> exists (snd m) p"
    unfolding m_def by (rule download_group_monotone) (simp add: ex)
  have mono_l: "\<And>p. exists (snd m) p \<Longrightarrow> exists (snd l) p"
    unfolding l_def by (rule download_group_monotone) (simp add: ex)
  have mono_c: "\<And>p. exists (snd l) p \<Longrightarrow> exists (snd c) p"
    unfolding c_def by (rule download_group_monotone) (simp add: ex)
  have c1: "fst (download_pack env pack so sl sc w) =
     fst (download_group MainFiles env so (files pack) True
            (print (MsgGroupHeader MainFiles) (print_pack_header pack w)))"
    by (simp add: r fc m_def w2_def)
  have c2: "calls (snd (download_pack env pack so sl sc w)) = calls w @ map target (fetch_plan pack so sl sc)"
    by (simp add: r w8 c_def l_def m_def download_group_calls hc[unfolded l_def] hl[unfolded m_def] w2 plan)
  have c3: "\<forall>p. exists w p \<longrightarrow> exists (snd (download_pack env pack so sl sc w)) p"
    by (simp add: r ex mono_m mono_l mono_c)
  have c4: "(\<forall>e \<in> set (fetch_plan pack so sl sc). exists w (path (snd e))) \<longrightarrow>
      requests (snd (download_pack env pack so sl sc w)) = requests w \<and>
      fs (snd (download_pack env pack so sl sc w)) = fs w"
  proof
    assume a: "\<forall>e \<in> set (fetch_plan pack so sl sc). exists w (path (snd e))"
    have "\<forall>e \<in> set (selected so (files pack)). exists w2 (path (snd e))"
      using a by (simp add: plan ex)
    from download_group_idle[OF this, of MainFiles env True]
    have im: "requests (snd m) = requests w" "fs (snd m) = fs w"
      by (simp_all add: m_def w2)
    have "\<forall>e \<in> set (selected so ls). exists hl (path (snd e))"
      using a by (simp add: plan exists_def hl im)
    from download_group_idle[OF this, of LoRAs env "fst m"]
    have il: "requests (snd l) = requests w" "fs (snd l) = fs w"
      by (simp_all add: l_def hl im)
    have "\<forall>e \<in> set (selected so cs). exists hc (path (snd e))"
      using a by (simp add: plan exists_def hc il)
    from download_group_idle[OF this, of ControlNets env "fst l"]
    have ic: "requests (snd c) = requests w" "fs (snd c) = fs w"
      by (simp_all add: c_def hc il)
    show "requests (snd (download_pack env pack so sl sc w)) = requests w \<and>
      fs (snd (download_pack env pack so sl sc w)) = fs w"
      by (simp add: r w8 ic)
  qed
  have c5: "\<exists>us. requests (snd (download_pack env pack so sl sc w)) = requests w @ us \<and>
         set us \<subseteq> fst ` set (map target (fetch_plan pack so sl sc))"
  proof -
    obtain u1 where u1: "requests (snd m) = requests w @ u1" "set u1 \<subseteq> fst ` set (map target (selected so (files pack)))"
      using download_group_requests[of MainFiles env so "files pack" True w2] by (auto simp: m_def w2)
    obtain u2 where u2: "requests (snd l) = requests (snd m) @ u2" "set u2 \<subseteq> fst ` set (map target (selected so ls))"
      using download_group_requests[of LoRAs env so ls "fst m" hl] by (auto simp: l_def hl)
    obtain u3 where u3: "requests (snd c) = requests (snd l) @ u3" "set u3 \<subseteq> fst ` set (map target (selected so cs))"
      using download_group_requests[of ControlNets env so cs "fst l" hc] by (auto simp: c_def hc)
    have "requests w8 = requests w @ (u1 @ u2 @ u3)" by (simp add: w8 u1 u2 u3)
    moreover have "set (u1 @ u2 @ u3) \<subseteq> fst ` set (map target (fetch_plan pack so sl sc))"
      using u1(2) u2(2) u3(2) by (auto simp: plan)
    ultimately show ?thesis unfolding r by (intro exI[of _ "u1 @ u2 @ u3"]) simp
  qed
  have c6: "\<exists>errs. download_errors (snd (download_pack env pack so sl sc w)) = download_errors w @ errs \<and>
      (errs = [] \<longrightarrow> (\<forall>e \<in> set (fetch_plan pack so sl sc).
          exists (snd (download_pack env pack so sl sc w)) (path (snd e))))"
  proof -
    obtain e1 where e1: "download_errors (snd m) = download_errors w @ e1"
       "e1 = [] \<longrightarrow> (\<forall>e \<in> set (selected so (files pack)). exists (snd m) (path (snd e)))"
      using download_group_errors[of MainFiles env so "files pack" True w2] by (auto simp: m_def w2)
    obtain e2 where e2: "download_errors (snd l) = download_errors (snd m) @ e2"
       "e2 = [] \<longrightarrow> (\<forall>e \<in> set (selected so ls). exists (snd l) (path (snd e)))"
      using download_group_errors[of LoRAs env so ls "fst m" hl] by (auto simp: l_def hl)
    obtain e3 where e3: "download_errors (snd c) = download_errors (snd l) @ e3"
       "e3 = [] \<longrightarrow> (\<forall>e \<in> set (selected so cs). exists (snd c) (path (snd e)))"
      using download_group_errors[of ControlNets env so cs "fst l" hc] by (auto simp: c_def hc)
    have "download_errors w8 = download_errors w @ (e1 @ e2 @ e3)" by (simp add: w8 e1 e2 e3)
    moreover have "e1 @ e2 @ e3 = [] \<longrightarrow> (\<forall>e \<in> set (fetch_plan pack so sl sc). exists w8 (path (snd e)))"
      using e1(2) e2(2) e3(2) mono_l mono_c by (auto simp: plan ex)
    ultimately show ?thesis unfolding r by (intro exI[of _ "e1 @ e2 @ e3"]) simp
  qed
  show ?thesis using c1 c2 c3 c4 c5 c6 by blast
qed

subsection \<open>The catalog\<close>

lemma catalog_keys:
  "map fst (MODEL_PACKS MODEL_DIR) =
     [''flux-dev'', ''flux-schnell'', ''sdxl'', ''sdxl-biglove'', ''wan22'', ''qwen-image'',
      ''sd15'', ''upscalers'']"
  by (simp add: MODEL_PACKS_def)

subsection \<open>The listing\<close>

lemmas size_eval = estimated_size_def first_token_def float_of_token_def is_space_def is_digit_def
  digits_value_def

lemma catalog_lookup_in_keys:
  "map_of (MODEL_PACKS MODEL_DIR) pack_name = Some pack \<Longrightarrow>
   pack_name \<in> set (map fst (MODEL_PACKS MODEL_DIR))"
  by (metis map_of_eq_None_iff option.distinct(1) set_map)

lemma download_model_pack_known:
  "map_of (MODEL_PACKS MODEL_DIR) pack_name = Some pack \<Longrightarrow>
   download_model_pack MODEL_DIR env pack_name so sl sc w = download_pack env pack so sl sc w"
  by (simp add: download_model_pack_def)

lemma estimated_size_flux_dev: "estimated_size (pack_flux_dev MODEL_DIR) = Inr (238 / 10 + 979 / 100)"
  by (simp add: pack_flux_dev_def size_eval)

lemma estimated_size_flux_schnell: "estimated_size (pack_flux_schnell MODEL_DIR) = Inr (238 / 10 + 489 / 100)"
  by (simp add: pack_flux_schnell_def size_eval)

lemma estimated_size_sdxl: "estimated_size (pack_sdxl MODEL_DIR) = Inr (694 / 100 + 608 / 100)"
  by (simp add: pack_sdxl_def size_eval)

lemma estimated_size_sdxl_biglove: "estimated_size (pack_sdxl_biglove MODEL_DIR) = Inr (646 / 100)"
  by (simp add: pack_sdxl_biglove_def size_eval)

lemma estimated_size_wan22: "estimated_size (pack_wan22 MODEL_DIR) = Inr (135 / 10 + 135 / 10 + 489 / 100)"
  by (simp add: pack_wan22_def size_eval)

lemma estimated_size_qwen_image: "estimated_size (pack_qwen_image MODEL_DIR) = Inr (78 / 10 + 42 / 10)"
  by (simp add: pack_qwen_image_def size_eval)

lemma estimated_size_sd15: "estimated_size (pack_sd15 MODEL_DIR) = Inr (397 / 100)"
  by (simp add: pack_sd15_def size_eval)

lemma estimated_size_upscalers: "estimated_size (pack_upscalers MODEL_DIR) = Inr (72 / 10 + 20 / 10)"
  by (simp add: pack_upscalers_def size_eval)

lemma list_packs_loop_step:
  "estimated_size pack = Inr x \<Longrightarrow>
   list_packs_loop ((k, pack) # rest) w =
     list_packs_loop rest
       (w\<lparr>stdout := stdout w @
          [MsgListKey k, MsgListName (name pack), MsgListDescription (description pack),
           MsgListIncludes (length (files pack))
             (case loras pack of None \<Rightarrow> None | Some entries \<Rightarrow> if entries = [] then None else Some (length entries))
             (case controlnet pack of None \<Rightarrow> None | Some entries \<Rightarrow> if entries = [] then None else Some (length entries)),
           MsgListEstimatedSize (format_1f x)]\<rparr>)"
  by (simp add: Let_def print_def split: option.splits)

lemma list_model_packs_output:
  "list_model_packs MODEL_DIR w =
     (None, w\<lparr>stdout := stdout w @
        [MsgListTitle, MsgRule 80,
         MsgListKey ''flux-dev'', MsgListName ''FLUX.1-dev'',
         MsgListDescription ''Black Forest Labs FLUX.1-dev (12B parameter model)'',
         MsgListIncludes 4 (Some 1) None, MsgListEstimatedSize (format_1f (238 / 10 + 979 / 100)),
         MsgListKey ''flux-schnell'', MsgListName ''FLUX.1-schnell'',
         MsgListDescription ''Black Forest Labs FLUX.1-schnell (fast inference)'',
         MsgListIncludes 4 None None, MsgListEstimatedSize (format_1f (238 / 10 + 489 / 100)),
         MsgListKey ''sdxl'', MsgListName ''Stable Diffusion XL'',
         MsgListDescription ''Stability AI SDXL 1.0 base model'',
         MsgListIncludes 3 (Some 3) None, MsgListEstimatedSize (format_1f (694 / 100 + 608 / 100)),
         MsgListKey ''sdxl-biglove'', MsgListName ''SDXL Big Love (Photorealistic Checkpoint)'',
         MsgListDescription ''Community fine-tuned SDXL checkpoint focused on photorealistic portraits'',
         MsgListIncludes 2 (Some 1) None, MsgListEstimatedSize (format_1f (646 / 100)),
         MsgListKey ''wan22'', MsgListName ''WAN 2.2 (Text-to-Video 14B)'',
         MsgListDescription ''Wuerstchen Architecture Network 2.2 - High quality text-to-video generation (14B params)'',
         MsgListIncludes 4 (Some 3) None, MsgListEstimatedSize (format_1f (135 / 10 + 135 / 10 + 489 / 100)),
         MsgListKey ''qwen-image'', MsgListName ''Qwen Image Edit 2509 (Lightning)'',
         MsgListDescription ''Alibaba Qwen 2.5 VL - Image editing and generation with 4-step Lightning inference'',
         MsgListIncludes 3 (Some 2) None, MsgListEstimatedSize (format_1f (78 / 10 + 42 / 10)),
         MsgListKey ''sd15'', MsgListName ''Stable Diffusion 1.5'',
         MsgListDescription ''Classic SD 1.5 - still widely used'',
         MsgListIncludes 2 None (Some 2), MsgListEstimatedSize (format_1f (397 / 100)),
         MsgListKey ''upscalers'', MsgListName ''AI Upscaler Pack (Image & Video)'',
         MsgListDescription ''Complete upscaling suite - ESRGAN, RealESRGAN, SeedVR2, and detail enhancement models'',
         MsgListIncludes 7 (Some 2) None, MsgListEstimatedSize (format_1f (72 / 10 + 20 / 10)),
         MsgRule 80]\<rparr>)"
proof -
  have names: "name (pack_flux_dev MODEL_DIR) = ''FLUX.1-dev''"
    "name (pack_flux_schnell MODEL_DIR) = ''FLUX.1-schnell''"
    "name (pack_sdxl MODEL_DIR) = ''Stable Diffusion XL''"
    "name (pack_sdxl_biglove MODEL_DIR) = ''SDXL Big Love (Photorealistic Checkpoint)''"
    "name (pack_wan22 MODEL_DIR) = ''WAN 2.2 (Text-to-Video 14B)''"
    "name (pack_qwen_image MODEL_DIR) = ''Qwen Image Edit 2509 (Lightning)''"
    "name (pack_sd15 MODEL_DIR) = ''Stable Diffusion 1.5''"
    "name (pack_upscalers MODEL_DIR) = ''AI Upscaler Pack (Image & Video)''"
    by (simp_all add: pack_flux_dev_def pack_flux_schnell_def pack_sdxl_def pack_sdxl_biglove_def
          pack_wan22_def pack_qwen_image_def pack_sd15_def pack_upscalers_def)
  have descriptions: "description (pack_flux_dev MODEL_DIR) = ''Black Forest Labs FLUX.1-dev (12B parameter model)''"
    "description (pack_flux_schnell MODEL_DIR) = ''Black Forest Labs FLUX.1-schnell (fast inference)''"
    "description (pack_sdxl MODEL_DIR) = ''Stability AI SDXL 1.0 base model''"
    "description (pack_sdxl_biglove MODEL_DIR) = ''Community fine-tuned SDXL checkpoint focused on photorealistic portraits''"
    "description (pack_wan22 MODEL_DIR) = ''Wuerstchen Architecture Network 2.2 - High quality text-to-video generation (14B params)''"
    "description (pack_qwen_image MODEL_DIR) = ''Alibaba Qwen 2.5 VL - Image editing and generation with 4-step Lightning inference''"
    "description (pack_sd15 MODEL_DIR) = ''Classic SD 1.5 - still widely used''"
    "description (pack_upscalers MODEL_DIR) = ''Complete upscaling suite - ESRGAN, RealESRGAN, SeedVR2, and detail enhancement models''"
    by (simp_all add: pack_flux_dev_def pack_flux_schnell_def pack_sdxl_def pack_sdxl_biglove_def
          pack_wan22_def pack_qwen_image_def pack_sd15_def pack_upscalers_def)
  have counts: "length (files (pack_flux_dev MODEL_DIR)) = 4"
    "length (files (pack_flux_schnell MODEL_DIR)) = 4"
    "length (files (pack_sdxl MODEL_DIR)) = 3"
    "length (files (pack_sdxl_biglove MODEL_DIR)) = 2"
    "length (files (pack_wan22 MODEL_DIR)) = 4"
    "length (files (pack_qwen_image MODEL_DIR)) = 3"
    "length (files (pack_sd15 MODEL_DIR)) = 2"
    "length (files (pack_upscalers MODEL_DIR)) = 7"
    by (simp_all add: pack_flux_dev_def pack_flux_schnell_def pack_sdxl_def pack_sdxl_biglove_def
          pack_wan22_def pack_qwen_image_def pack_sd15_def pack_upscalers_def)
  have groups:
    "(case loras (pack_flux_dev MODEL_DIR) of None \<Rightarrow> None | Some entries \<Rightarrow> if entries = [] then None else Some (length entries)) = Some 1"
    "(case loras (pack_flux_schnell MODEL_DIR) of None \<Rightarrow> None | Some entries \<Rightarrow> if entries = [] then None else Some (length entries)) = None"
    "(case loras (pack_sdxl MODEL_DIR) of None \<Rightarrow> None | Some entries \<Rightarrow> if entries = [] then None else Some (length entries)) = Some 3"
    "(case loras (pack_sdxl_biglove MODEL_DIR) of None \<Rightarrow> None | Some entries \<Rightarrow> if entries = [] then None else Some (length entries)) = Some 1"
    "(case loras (pack_wan22 MODEL_DIR) of None \<Rightarrow> None | Some entries \<Rightarrow> if entries = [] then None else Some (length entries)) = Some 3"
    "(case loras (pack_qwen_image MODEL_DIR) of None \<Rightarrow> None | Some entries \<Rightarrow> if entries = [] then None else Some (length entries)) = Some 2"
    "(case loras (pack_sd15 MODEL_DIR) of None \<Rightarrow> None | Some entries \<Rightarrow> if entries = [] then None else Some (length entries)) = None"
    "(case loras (pack_upscalers MODEL_DIR) of None \<Rightarrow> None | Some entries \<Rightarrow> if entries = [] then None else Some (length entries)) = Some 2"
    "(case controlnet (pack_flux_dev MODEL_DIR) of None \<Rightarrow> None | Some entries \<Rightarrow> if entries = [] then None else Some (length entries)) = None"
    "(case controlnet (pack_flux_schnell MODEL_DIR) of None \<Rightarrow> None | Some entries \<Rightarrow> if entries = [] then None else Some (length entries)) = None"
    "(case controlnet (pack_sdxl MODEL_DIR) of None \<Rightarrow> None | Some entries \<Rightarrow> if entries = [] then None else Some (length entries)) = None"
    "(case controlnet (pack_sdxl_biglove MODEL_DIR) of None \<Rightarrow> None | Some entries \<Rightarrow> if entries = [] then None else Some (length entries)) = None"
    "(case controlnet (pack_wan22 MODEL_DIR) of None \<Rightarrow> None | Some entries \<Rightarrow> if entries = [] then None else Some (length entries)) = None"
    "(case controlnet (pack_qwen_image MODEL_DIR) of None \<Rightarrow> None | Some entries \<Rightarrow> if entries = [] then None else Some (length entries)) = None"
    "(case controlnet (pack_sd15 MODEL_DIR) of None \<Rightarrow> None | Some entries \<Rightarrow> if entries = [] then None else Some (length entries)) = Some 2"
    "(case controlnet (pack_upscalers MODEL_DIR) of None \<Rightarrow> None | Some entries \<Rightarrow> if entries = [] then None else Some (length entries)) = None"
    by (simp_all add: pack_flux_dev_def pack_flux_schnell_def pack_sdxl_def pack_sdxl_biglove_def
          pack_wan22_def pack_qwen_image_def pack_sd15_def pack_upscalers_def)
  show ?thesis
    unfolding list_model_packs_def MODEL_PACKS_def
      list_packs_loop_step[OF estimated_size_flux_dev]
      list_packs_loop_step[OF estimated_size_flux_schnell]
      list_packs_loop_step[OF estimated_size_sdxl]
      list_packs_loop_step[OF estimated_size_sdxl_biglove]
      list_packs_loop_step[OF estimated_size_wan22]
      list_packs_loop_step[OF estimated_size_qwen_image]
      list_packs_loop_step[OF estimated_size_sd15]
      list_packs_loop_step[OF estimated_size_upscalers]
      names descriptions counts groups
    by (simp add: print_def)
qed

lemma format_1f_eval:
  "\<lfloor>x * 10\<rfloor> = f \<Longrightarrow>
   format_1f x = of_int (if x * 10 - of_int f < 1 / 2 then f
                 else if 1 / 2 < x * 10 - of_int f then f + 1
                 else if even f then f else f + 1) / 10"
  by (simp add: format_1f_def Let_def)

lemma format_1f_flux_dev: "format_1f (238 / 10 + 979 / 100) = 336 / 10"
proof -
  have "\<lfloor>(238 / 10 + 979 / 100) * 10 :: rat\<rfloor> = 335" by (simp add: floor_eq_iff)
  from format_1f_eval[OF this] show ?thesis by simp
qed

lemma format_1f_flux_schnell: "format_1f (238 / 10 + 489 / 100) = 287 / 10"
proof -
  have "\<lfloor>(238 / 10 + 489 / 100) * 10 :: rat\<rfloor> = 286" by (simp add: floor_eq_iff)
  from format_1f_eval[OF this] show ?thesis by simp
qed

lemma format_1f_sdxl: "format_1f (694 / 100 + 608 / 100) = 130 / 10"
proof -
  have "\<lfloor>(694 / 100 + 608 / 100) * 10 :: rat\<rfloor> = 130" by (simp add: floor_eq_iff)
  from format_1f_eval[OF this] show ?thesis by simp
qed

lemma format_1f_sdxl_biglove: "format_1f (646 / 100) = 65 / 10"
proof -
  have "\<lfloor>(646 / 100) * 10 :: rat\<rfloor> = 64" by (simp add: floor_eq_iff)
  from format_1f_eval[OF this] show ?thesis by simp
qed

lemma format_1f_wan22: "format_1f (135 / 10 + 135 / 10 + 489 / 100) = 319 / 10"
proof -
  have "\<lfloor>(135 / 10 + 135 / 10 + 489 / 100) * 10 :: rat\<rfloor> = 318" by (simp add: floor_eq_iff)
  from format_1f_eval[OF this] show ?thesis by simp
qed

lemma format_1f_qwen_image: "format_1f (78 / 10 + 42 / 10) = 120 / 10"
proof -
  have "\<lfloor>(78 / 10 + 42 / 10) * 10 :: rat\<rfloor> = 120" by (simp add: floor_eq_iff)
  from format_1f_eval[OF this] show ?thesis by simp
qed

lemma format_1f_sd15: "format_1f (397 / 100) = 40 / 10"
proof -
  have "\<lfloor>(397 / 100) * 10 :: rat\<rfloor> = 39" by (simp add: floor_eq_iff)
  from format_1f_eval[OF this] show ?thesis by simp
qed

lemma format_1f_upscalers: "format_1f (72 / 10 + 20 / 10) = 92 / 10"
proof -
  have "\<lfloor>(72 / 10 + 20 / 10) * 10 :: rat\<rfloor> = 92" by (simp add: floor_eq_iff)
  from format_1f_eval[OF this] show ?thesis by simp
qed

lemma format_1f_wan22_all: "format_1f (3819 / 100) = 382 / 10"
proof -
  have "\<lfloor>(3819 / 100) * 10 :: rat\<rfloor> = 381" by (simp add: floor_eq_iff)
  from format_1f_eval[OF this] show ?thesis by simp
qed

lemma format_1f_catalog:
  "map format_1f
     [238 / 10 + 979 / 100, 238 / 10 + 489 / 100, 694 / 100 + 608 / 100, 646 / 100,
      135 / 10 + 135 / 10 + 489 / 100, 78 / 10 + 42 / 10, 397 / 100, 72 / 10 + 20 / 10] =
     [336 / 10, 287 / 10, 130 / 10, 65 / 10, 319 / 10, 120 / 10, 40 / 10, 92 / 10]"
  by (simp only: list.map format_1f_flux_dev format_1f_flux_schnell format_1f_sdxl
        format_1f_sdxl_biglove format_1f_wan22 format_1f_qwen_image format_1f_sd15
        format_1f_upscalers)

lemma list_model_packs_ok: "fst (list_model_packs MODEL_DIR w) = None"
  by (simp add: list_model_packs_output)

subsection \<open>Runs on the catalog\<close>

lemmas run_eval = download_model_pack_def MODEL_PACKS_def download_pack_def print_pack_header_def
  download_group.simps(2) download_file_def transfer_def raise_for_status_def total_size_def
  print_def exists_def unlink_def is_optional_def Let_def world0_def

lemma lookup_sdxl: "map_of (MODEL_PACKS MODEL_DIR) ''sdxl'' = Some (pack_sdxl MODEL_DIR)"
  by (simp add: MODEL_PACKS_def)

lemma lookup_sd15: "map_of (MODEL_PACKS MODEL_DIR) ''sd15'' = Some (pack_sd15 MODEL_DIR)"
  by (simp add: MODEL_PACKS_def)

lemma download_model_pack_calls:
  "map_of (MODEL_PACKS MODEL_DIR) pack_name = Some pack \<Longrightarrow>
   calls (snd (download_model_pack MODEL_DIR env pack_name so sl sc w)) =
     calls w @ map target (fetch_plan pack so sl sc)"
  using download_pack_summary[of env pack so sl sc w]
  by (simp add: download_model_pack_known)

lemma choices_not_list:
  "map_of (MODEL_PACKS MODEL_DIR) pack_name = Some pack \<Longrightarrow> pack_name \<noteq> ''list''"
  by (auto simp: MODEL_PACKS_def split: if_splits)

subsection \<open>Exceptions outside the try block\<close>



section \<open>The claims\<close>

text \<open>
  C3. When the destination does not exist and the transfer raises (a transport error
  from \<open>requests.get\<close> or from the stream, an HTTP status error, or any other
  exception of the \<open>try\<close> block), \<open>download_file\<close> returns \<open>False\<close>, the
  destination does not exist afterwards, and exactly one request has been made.
\<close>

theorem failed_transfer_leaves_no_file:
  assumes "\<not> exists w destination"
    and "fst (transfer (env (length (requests w)) u) destination w) = Some e"
  shows "fst (download_file env u destination descr w) = False \<and>
         \<not> exists (snd (download_file env u destination descr w)) destination \<and>
         requests (snd (download_file env u destination descr w)) = requests w @ [u]"
  using assms download_file_summary[of env u destination descr w] by simp

theorem failed_transfer_leaves_no_file_witness:
  "\<not> exists world0 [''m'', ''vae'', ''x.bin''] \<and>
   fst (transfer (env_broken (length (requests world0)) ''http://h/x'') [''m'', ''vae'', ''x.bin''] world0)
     = Some ConnectionError \<and>
   fst (download_file env_broken ''http://h/x'' [''m'', ''vae'', ''x.bin''] None world0) = False \<and>
   \<not> exists (snd (download_file env_broken ''http://h/x'' [''m'', ''vae'', ''x.bin''] None world0))
        [''m'', ''vae'', ''x.bin''] \<and>
   requests (snd (download_file env_broken ''http://h/x'' [''m'', ''vae'', ''x.bin''] None world0))
     = [''http://h/x'']"
proof -
  have h1: "\<not> exists world0 [''m'', ''vae'', ''x.bin'']"
    by (simp add: exists_def world0_def)
  have h2: "fst (transfer (env_broken (length (requests world0)) ''http://h/x'') [''m'', ''vae'', ''x.bin''] world0)
     = Some ConnectionError"
    by (simp add: transfer_def env_broken_def ok_response_def raise_for_status_def total_size_def world0_def)
  show ?thesis
    using h1 h2
      failed_transfer_leaves_no_file[where w = world0 and env = env_broken and u = "''http://h/x''"
        and destination = "[''m'', ''vae'', ''x.bin'']" and e = ConnectionError and descr = None]
    by (simp add: world0_def)
qed

text \<open>
  C4. When the destination exists, \<open>download_file\<close> returns \<open>True\<close>, prints the
  line "already exists, skipping", makes no request and leaves the filesystem as it
  was, whatever the URL and the environment.
\<close>

theorem existing_destination_is_skipped:
  "exists w destination \<Longrightarrow>
   download_file env u destination descr w =
     (True, w\<lparr>calls := calls w @ [(u, destination)],
              stdout := stdout w @ [MsgExists (path_name destination)]\<rparr>) \<and>
   fs (snd (download_file env u destination descr w)) = fs w \<and>
   requests (snd (download_file env u destination descr w)) = requests w"
  by (simp add: download_file_def Let_def print_def exists_def)

theorem existing_destination_is_skipped_witness:
  "exists (world0\<lparr>fs := [[''m'', ''vae'', ''x.bin''] \<mapsto> ''partial'']\<rparr>) [''m'', ''vae'', ''x.bin''] \<and>
   fst (download_file env_down ''not a url'' [''m'', ''vae'', ''x.bin''] None
          (world0\<lparr>fs := [[''m'', ''vae'', ''x.bin''] \<mapsto> ''partial'']\<rparr>)) = True \<and>
   requests (snd (download_file env_down ''not a url'' [''m'', ''vae'', ''x.bin''] None
          (world0\<lparr>fs := [[''m'', ''vae'', ''x.bin''] \<mapsto> ''partial'']\<rparr>))) = []"
proof -
  have h: "exists (world0\<lparr>fs := [[''m'', ''vae'', ''x.bin''] \<mapsto> ''partial'']\<rparr>) [''m'', ''vae'', ''x.bin'']"
    by (simp add: exists_def world0_def)
  show ?thesis
    using h existing_destination_is_skipped[OF h, of env_down "''not a url''" None]
    by (simp add: world0_def)
qed

text \<open>
  C5. For a name that is not a key of the catalog, \<open>download_model_pack\<close> returns
  \<open>False\<close> and only prints the "not found" line and the list of the valid keys:
  the filesystem and the requests are unchanged.
\<close>

theorem unknown_pack_is_not_found:
  "pack_name \<notin> set (map fst (MODEL_PACKS MODEL_DIR)) \<Longrightarrow>
   download_model_pack MODEL_DIR env pack_name so sl sc w =
     (False, w\<lparr>stdout := stdout w @
        [MsgPackNotFound pack_name,
         MsgAvailablePacks [''flux-dev'', ''flux-schnell'', ''sdxl'', ''sdxl-biglove'', ''wan22'',
                            ''qwen-image'', ''sd15'', ''upscalers'']]\<rparr>)"
proof -
  assume "pack_name \<notin> set (map fst (MODEL_PACKS MODEL_DIR))"
  then have "map_of (MODEL_PACKS MODEL_DIR) pack_name = None"
    by (simp add: map_of_eq_None_iff)
  then show ?thesis
    by (simp add: download_model_pack_def catalog_keys print_def)
qed

theorem unknown_pack_is_not_found_witness:
  "''flux'' \<notin> set (map fst (MODEL_PACKS [''m''])) \<and>
   fst (download_model_pack [''m''] env_ok ''flux'' False False False world0) = False \<and>
   requests (snd (download_model_pack [''m''] env_ok ''flux'' False False False world0)) = [] \<and>
   fs (snd (download_model_pack [''m''] env_ok ''flux'' False False False world0)) = Map.empty"
proof -
  have h: "''flux'' \<notin> set (map fst (MODEL_PACKS [''m'']))"
    by (simp add: catalog_keys)
  show ?thesis
    using h unknown_pack_is_not_found[OF h, of env_ok False False False world0]
    by (simp add: world0_def)
qed




text \<open>
  C2. On the pack \<open>sdxl\<close> with no skip flag, \<open>download_file\<close> is called for the
  three main files and the three LoRAs and for nothing else: the entry of the group
  \<open>embeddings\<close>, which the catalog declares for this pack, is never fetched. With
  \<open>skip_optional\<close> and \<open>skip_loras\<close> it is called for the checkpoint and the
  VAE only.
\<close>

theorem sdxl_attempts:
  "calls (snd (download_model_pack MODEL_DIR env ''sdxl'' False False False w)) =
     calls w @
     [(''https://huggingface.co/stabilityai/stable-diffusion-xl-base-1.0/resolve/main/sd_xl_base_1.0.safetensors'',
       CHECKPOINTS_DIR MODEL_DIR @ [''sd_xl_base_1.0.safetensors'']),
      (''https://huggingface.co/stabilityai/stable-diffusion-xl-refiner-1.0/resolve/main/sd_xl_refiner_1.0.safetensors'',
       CHECKPOINTS_DIR MODEL_DIR @ [''sd_xl_refiner_1.0.safetensors'']),
      (''https://huggingface.co/stabilityai/sdxl-vae/resolve/main/sdxl_vae.safetensors'',
       VAE_DIR MODEL_DIR @ [''sdxl_vae.safetensors'']),
      (''https://civitai.com/api/download/models/707763?token=b52f18fe1b10f6878747dbd8419924dc'',
       LORAS_DIR MODEL_DIR @ [''realistic_skin_texture_v4.safetensors'']),
      (''https://civitai.com/api/download/models/340833?token=b52f18fe1b10f6878747dbd8419924dc'',
       LORAS_DIR MODEL_DIR @ [''skin_realism_acne_details.safetensors'']),
      (''https://civitai.com/api/download/models/1934796?token=b52f18fe1b10f6878747dbd8419924dc'',
       LORAS_DIR MODEL_DIR @ [''touch_of_realism_sdxl_v2.safetensors''])]
   \<and> calls (snd (download_model_pack MODEL_DIR env ''sdxl'' True True sc w)) =
     calls w @
     [(''https://huggingface.co/stabilityai/stable-diffusion-xl-base-1.0/resolve/main/sd_xl_base_1.0.safetensors'',
       CHECKPOINTS_DIR MODEL_DIR @ [''sd_xl_base_1.0.safetensors'']),
      (''https://huggingface.co/stabilityai/sdxl-vae/resolve/main/sdxl_vae.safetensors'',
       VAE_DIR MODEL_DIR @ [''sdxl_vae.safetensors''])]
   \<and> embeddings (pack_sdxl MODEL_DIR) =
     Some [(''realistic_skin_ti'',
       \<lparr>url = ''https://civitai.com/api/download/models/2192131?token=b52f18fe1b10f6878747dbd8419924dc'',
        path = EMBEDDINGS_DIR MODEL_DIR @ [''RealisticSkin.safetensors''],
        size_label = Some ''12 KB'', optional = Some True\<rparr>)]"
proof -
  have a: "map target (fetch_plan (pack_sdxl MODEL_DIR) False False False) =
     [(''https://huggingface.co/stabilityai/stable-diffusion-xl-base-1.0/resolve/main/sd_xl_base_1.0.safetensors'',
       CHECKPOINTS_DIR MODEL_DIR @ [''sd_xl_base_1.0.safetensors'']),
      (''https://huggingface.co/stabilityai/stable-diffusion-xl-refiner-1.0/resolve/main/sd_xl_refiner_1.0.safetensors'',
       CHECKPOINTS_DIR MODEL_DIR @ [''sd_xl_refiner_1.0.safetensors'']),
      (''https://huggingface.co/stabilityai/sdxl-vae/resolve/main/sdxl_vae.safetensors'',
       VAE_DIR MODEL_DIR @ [''sdxl_vae.safetensors'']),
      (''https://civitai.com/api/download/models/707763?token=b52f18fe1b10f6878747dbd8419924dc'',
       LORAS_DIR MODEL_DIR @ [''realistic_skin_texture_v4.safetensors'']),
      (''https://civitai.com/api/download/models/340833?token=b52f18fe1b10f6878747dbd8419924dc'',
       LORAS_DIR MODEL_DIR @ [''skin_realism_acne_details.safetensors'']),
      (''https://civitai.com/api/download/models/1934796?token=b52f18fe1b10f6878747dbd8419924dc'',
       LORAS_DIR MODEL_DIR @ [''touch_of_realism_sdxl_v2.safetensors''])]"
    by (simp add: fetch_plan_def selected_def pack_sdxl_def is_optional_def target_def)
  have b: "map target (fetch_plan (pack_sdxl MODEL_DIR) True True sc) =
     [(''https://huggingface.co/stabilityai/stable-diffusion-xl-base-1.0/resolve/main/sd_xl_base_1.0.safetensors'',
       CHECKPOINTS_DIR MODEL_DIR @ [''sd_xl_base_1.0.safetensors'']),
      (''https://huggingface.co/stabilityai/sdxl-vae/resolve/main/sdxl_vae.safetensors'',
       VAE_DIR MODEL_DIR @ [''sdxl_vae.safetensors''])]"
    by (simp add: fetch_plan_def selected_def pack_sdxl_def is_optional_def target_def)
  have c: "embeddings (pack_sdxl MODEL_DIR) =
     Some [(''realistic_skin_ti'',
       \<lparr>url = ''https://civitai.com/api/download/models/2192131?token=b52f18fe1b10f6878747dbd8419924dc'',
        path = EMBEDDINGS_DIR MODEL_DIR @ [''RealisticSkin.safetensors''],
        size_label = Some ''12 KB'', optional = Some True\<rparr>)]"
    by (simp add: pack_sdxl_def)
  show ?thesis
    unfolding download_model_pack_calls[OF lookup_sdxl] a b
    using c by simp
qed

text \<open>
  C6. For every pack, in the catalog or not and whatever the optional flags of its
  entries, \<open>download_file\<close> is called exactly for the entries that the flags leave:
  with \<open>skip_optional\<close> no entry flagged optional, in any of the three groups; with
  \<open>skip_loras\<close> no entry of the LoRA group; with \<open>skip_controlnet\<close> no entry of
  the ControlNet group. Every request made is for the URL of one of these entries.
  For a key of the catalog \<open>download_model_pack\<close> is this run on the pack found.
\<close>

theorem skip_flags_select_entries:
  "calls (snd (download_pack env pack so sl sc w)) =
     calls w @ map target
       (filter (\<lambda>e. \<not> (so \<and> is_optional (snd e))) (files pack)
        @ (if sl then []
           else filter (\<lambda>e. \<not> (so \<and> is_optional (snd e)))
                  (case loras pack of None \<Rightarrow> [] | Some entries \<Rightarrow> entries))
        @ (if sc then []
           else filter (\<lambda>e. \<not> (so \<and> is_optional (snd e)))
                  (case controlnet pack of None \<Rightarrow> [] | Some entries \<Rightarrow> entries)))
   \<and> (\<exists>us. requests (snd (download_pack env pack so sl sc w)) = requests w @ us
          \<and> set us \<subseteq> fst ` set (map target (fetch_plan pack so sl sc)))
   \<and> (map_of (MODEL_PACKS MODEL_DIR) pack_name = Some pack \<longrightarrow>
        download_model_pack MODEL_DIR env pack_name so sl sc w = download_pack env pack so sl sc w)"
  using download_pack_summary[of env pack so sl sc w]
  by (simp add: download_model_pack_known fetch_plan_def selected_def)

theorem skip_flags_select_entries_witness:
  "map_of (MODEL_PACKS [''m'']) ''sd15'' = Some (pack_sd15 [''m'']) \<and>
   calls (snd (download_model_pack [''m''] env_ok ''sd15'' True False False world0)) =
     [(''https://huggingface.co/runwayml/stable-diffusion-v1-5/resolve/main/v1-5-pruned-emaonly.safetensors'',
       [''m'', ''checkpoints'', ''v1-5-pruned-emaonly.safetensors'']),
      (''https://huggingface.co/stabilityai/sd-vae-ft-mse-original/resolve/main/vae-ft-mse-840000-ema-pruned.safetensors'',
       [''m'', ''vae'', ''sd15_vae.safetensors''])] \<and>
   calls (snd (download_pack env_ok pack_required_extras False False False world0)) =
     [(''http://h/checkpoint'', [''m'', ''checkpoints'', ''c.safetensors'']),
      (''http://h/style'', [''m'', ''loras'', ''style.safetensors'']),
      (''http://h/canny'', [''m'', ''controlnet'', ''canny.pth''])] \<and>
   calls (snd (download_pack env_ok pack_required_extras False True True world0)) =
     [(''http://h/checkpoint'', [''m'', ''checkpoints'', ''c.safetensors''])] \<and>
   calls (snd (download_pack env_ok pack_required_extras True True False world0)) =
     [(''http://h/checkpoint'', [''m'', ''checkpoints'', ''c.safetensors'']),
      (''http://h/canny'', [''m'', ''controlnet'', ''canny.pth''])]"
proof -
  have h: "map_of (MODEL_PACKS [''m'']) ''sd15'' = Some (pack_sd15 [''m''])"
    by (rule lookup_sd15)
  have a: "calls (snd (download_model_pack [''m''] env_ok ''sd15'' True False False world0)) =
     [(''https://huggingface.co/runwayml/stable-diffusion-v1-5/resolve/main/v1-5-pruned-emaonly.safetensors'',
       [''m'', ''checkpoints'', ''v1-5-pruned-emaonly.safetensors'']),
      (''https://huggingface.co/stabilityai/sd-vae-ft-mse-original/resolve/main/vae-ft-mse-840000-ema-pruned.safetensors'',
       [''m'', ''vae'', ''sd15_vae.safetensors''])]"
    using h skip_flags_select_entries[of env_ok "pack_sd15 [''m'']" True False False world0 "[''m'']" "''sd15''"]
    by (simp add: pack_sd15_def is_optional_def target_def world0_def CHECKPOINTS_DIR_def VAE_DIR_def)
  have b: "calls (snd (download_pack env_ok pack_required_extras False False False world0)) =
     [(''http://h/checkpoint'', [''m'', ''checkpoints'', ''c.safetensors'']),
      (''http://h/style'', [''m'', ''loras'', ''style.safetensors'']),
      (''http://h/canny'', [''m'', ''controlnet'', ''canny.pth''])]"
    using skip_flags_select_entries[of env_ok pack_required_extras False False False world0]
    by (simp add: pack_required_extras_def is_optional_def target_def world0_def)
  have c: "calls (snd (download_pack env_ok pack_required_extras False True True world0)) =
     [(''http://h/checkpoint'', [''m'', ''checkpoints'', ''c.safetensors''])]"
    using skip_flags_select_entries[of env_ok pack_required_extras False True True world0]
    by (simp add: pack_required_extras_def is_optional_def target_def world0_def)
  have d: "calls (snd (download_pack env_ok pack_required_extras True True False world0)) =
     [(''http://h/checkpoint'', [''m'', ''checkpoints'', ''c.safetensors'']),
      (''http://h/canny'', [''m'', ''controlnet'', ''canny.pth''])]"
    using skip_flags_select_entries[of env_ok pack_required_extras True True False world0]
    by (simp add: pack_required_extras_def is_optional_def target_def world0_def)
  show ?thesis using h a b c d by blast
qed

text \<open>
  C1. For every pack of the catalog, the result of \<open>download_model_pack\<close> is
  \<open>True\<close> exactly when, for each main file that is not optional, the call of
  \<open>download_file\<close> made for it, in the world reached after the entries before it,
  returned \<open>True\<close>. Whatever fails, \<open>download_file\<close> is still called for every
  entry of the plan, and the entries of the LoRA and ControlNet groups have no part
  in the result. The exit status is 0 when the result is \<open>True\<close> and 1 otherwise,
  and 0 for the listing.
\<close>

theorem pack_result_and_exit_code:
  assumes "map_of (MODEL_PACKS MODEL_DIR) pack_name = Some pack"
  shows "fst (download_model_pack MODEL_DIR env pack_name so sl sc w) =
           (\<forall>i<length (files pack). is_optional (snd (files pack ! i)) \<or>
              fst (download_file env (url (snd (files pack ! i))) (path (snd (files pack ! i)))
                     (Some (describe (fst (files pack ! i)) (snd (files pack ! i))))
                     (snd (download_group MainFiles env so (take i (files pack)) True
                             (print (MsgGroupHeader MainFiles) (print_pack_header pack w))))))
         \<and> calls (snd (download_model_pack MODEL_DIR env pack_name so sl sc w)) =
             calls w @ map target (fetch_plan pack so sl sc)
         \<and> fst (main MODEL_DIR env
                  \<lparr>args_pack = pack_name, args_skip_optional = so, args_skip_loras = sl,
                   args_skip_controlnet = sc\<rparr> w) =
             (if fst (download_model_pack MODEL_DIR env pack_name so sl sc w) then 0 else 1)
         \<and> fst (main MODEL_DIR env
                  \<lparr>args_pack = ''list'', args_skip_optional = so, args_skip_loras = sl,
                   args_skip_controlnet = sc\<rparr> w) = 0"
proof -
  have a: "fst (download_model_pack MODEL_DIR env pack_name so sl sc w) =
           (\<forall>i<length (files pack). is_optional (snd (files pack ! i)) \<or>
              fst (download_file env (url (snd (files pack ! i))) (path (snd (files pack ! i)))
                     (Some (describe (fst (files pack ! i)) (snd (files pack ! i))))
                     (snd (download_group MainFiles env so (take i (files pack)) True
                             (print (MsgGroupHeader MainFiles) (print_pack_header pack w))))))"
    using download_pack_summary[of env pack so sl sc w]
    by (simp add: download_model_pack_known[OF assms] download_group_main_result)
  have b: "calls (snd (download_model_pack MODEL_DIR env pack_name so sl sc w)) =
             calls w @ map target (fetch_plan pack so sl sc)"
    using assms by (rule download_model_pack_calls)
  have k: "pack_name \<in> set (choices MODEL_DIR)" "pack_name \<noteq> ''list''"
    using catalog_lookup_in_keys[OF assms] choices_not_list[OF assms] by (simp_all add: choices_def)
  have c: "fst (main MODEL_DIR env
                  \<lparr>args_pack = pack_name, args_skip_optional = so, args_skip_loras = sl,
                   args_skip_controlnet = sc\<rparr> w) =
             (if fst (download_model_pack MODEL_DIR env pack_name so sl sc w) then 0 else 1)"
    using k by (simp add: main_def case_prod_unfold)
  have d: "fst (main MODEL_DIR env
                  \<lparr>args_pack = ''list'', args_skip_optional = so, args_skip_loras = sl,
                   args_skip_controlnet = sc\<rparr> w) = 0"
    using list_model_packs_ok[of MODEL_DIR w]
    by (simp add: main_def choices_def case_prod_unfold)
  show ?thesis using a b c d by blast
qed

theorem pack_result_and_exit_code_witness:
  "map_of (MODEL_PACKS [''m'']) ''sd15'' = Some (pack_sd15 [''m'']) \<and>
   fst (download_model_pack [''m''] env_down ''sd15'' False False True world0) = False \<and>
   fst (main [''m''] env_down
          \<lparr>args_pack = ''sd15'', args_skip_optional = False, args_skip_loras = False,
           args_skip_controlnet = True\<rparr> world0) = 1"
proof -
  have h: "map_of (MODEL_PACKS [''m'']) ''sd15'' = Some (pack_sd15 [''m''])"
    by (rule lookup_sd15)
  have r: "fst (download_model_pack [''m''] env_down ''sd15'' False False True world0) = False"
    by (simp add: run_eval pack_sd15_def env_down_def)
  show ?thesis
    using h r pack_result_and_exit_code[OF h, of env_down False False True world0]
    by simp
qed

text \<open>
  C7, as amended. When the first run prints no new download error, a second run of
  the same command, whatever the network does then, makes no request and leaves the
  filesystem as it is.
\<close>

theorem second_run_after_clean_first_run:
  assumes "download_errors (snd (download_model_pack MODEL_DIR env1 pack_name so sl sc w)) =
           download_errors w"
  shows "requests (snd (download_model_pack MODEL_DIR env2 pack_name so sl sc
                     (snd (download_model_pack MODEL_DIR env1 pack_name so sl sc w)))) =
         requests (snd (download_model_pack MODEL_DIR env1 pack_name so sl sc w))
       \<and> fs (snd (download_model_pack MODEL_DIR env2 pack_name so sl sc
                     (snd (download_model_pack MODEL_DIR env1 pack_name so sl sc w)))) =
         fs (snd (download_model_pack MODEL_DIR env1 pack_name so sl sc w))"
proof (cases "map_of (MODEL_PACKS MODEL_DIR) pack_name")
  case None
  then show ?thesis by (simp add: download_model_pack_def)
next
  case (Some pack)
  let ?w1 = "snd (download_pack env1 pack so sl sc w)"
  have clean: "download_errors ?w1 = download_errors w"
    using assms by (simp add: download_model_pack_known[OF Some])
  obtain errs where errs: "download_errors ?w1 = download_errors w @ errs"
    and all: "errs = [] \<longrightarrow> (\<forall>e \<in> set (fetch_plan pack so sl sc). exists ?w1 (path (snd e)))"
    using download_pack_summary[of env1 pack so sl sc w] by blast
  from clean errs have "errs = []" by simp
  with all have "\<forall>e \<in> set (fetch_plan pack so sl sc). exists ?w1 (path (snd e))" by blast
  then have "requests (snd (download_pack env2 pack so sl sc ?w1)) = requests ?w1 \<and>
      fs (snd (download_pack env2 pack so sl sc ?w1)) = fs ?w1"
    using download_pack_summary[of env2 pack so sl sc ?w1] by blast
  then show ?thesis by (simp add: download_model_pack_known[OF Some])
qed

theorem second_run_after_clean_first_run_witness:
  "download_errors (snd (download_model_pack [''m''] env_ok ''sd15'' False False True world0)) =
     download_errors world0 \<and>
   requests (snd (download_model_pack [''m''] env_down ''sd15'' False False True
                     (snd (download_model_pack [''m''] env_ok ''sd15'' False False True world0)))) =
     [''https://huggingface.co/runwayml/stable-diffusion-v1-5/resolve/main/v1-5-pruned-emaonly.safetensors'',
      ''https://huggingface.co/stabilityai/sd-vae-ft-mse-original/resolve/main/vae-ft-mse-840000-ema-pruned.safetensors'']"
proof -
  have h: "download_errors (snd (download_model_pack [''m''] env_ok ''sd15'' False False True world0)) =
     download_errors world0"
    by (simp add: run_eval pack_sd15_def env_ok_def ok_response_def download_errors_def is_download_error_def)
  have r: "requests (snd (download_model_pack [''m''] env_ok ''sd15'' False False True world0)) =
     [''https://huggingface.co/runwayml/stable-diffusion-v1-5/resolve/main/v1-5-pruned-emaonly.safetensors'',
      ''https://huggingface.co/stabilityai/sd-vae-ft-mse-original/resolve/main/vae-ft-mse-840000-ema-pruned.safetensors'']"
    by (simp add: run_eval pack_sd15_def env_ok_def ok_response_def)
  show ?thesis
    using h r second_run_after_clean_first_run[OF h, of env_down]
    by simp
qed

text \<open>
  C7 as stated fails: with the network down, the first run of \<open>sd15\<close> requests
  both main files and leaves no file, so the second run requests them again.
\<close>

theorem second_run_requests_again_counterexample:
  "requests (snd (download_model_pack [''m''] env_down ''sd15'' False False True
               (snd (download_model_pack [''m''] env_down ''sd15'' False False True world0))))
   \<noteq> requests (snd (download_model_pack [''m''] env_down ''sd15'' False False True world0))"
  by (simp add: run_eval pack_sd15_def env_down_def)

text \<open>
  C8, as amended. \<open>list_model_packs\<close> prints each key of the catalog once, in
  order, with the name, the description, the number of main files, the numbers of
  LoRAs and ControlNets when positive, and an estimate that is the sum of the numeric
  parts of the GB labels of the main files only, printed with one decimal; it makes
  no request and no call of \<open>download_file\<close> and leaves the filesystem as it is.
\<close>

theorem listing_output:
  "fst (list_model_packs MODEL_DIR w) = None \<and>
   fs (snd (list_model_packs MODEL_DIR w)) = fs w \<and>
   requests (snd (list_model_packs MODEL_DIR w)) = requests w \<and>
   calls (snd (list_model_packs MODEL_DIR w)) = calls w \<and>
   stdout (snd (list_model_packs MODEL_DIR w)) =
     stdout w @ [MsgListTitle, MsgRule 80]
     @ concat (map (\<lambda>(k, n, d, c, l, cn, x).
          [MsgListKey k, MsgListName n, MsgListDescription d, MsgListIncludes c l cn,
           MsgListEstimatedSize (format_1f x)])
        [(''flux-dev'', ''FLUX.1-dev'', ''Black Forest Labs FLUX.1-dev (12B parameter model)'',
          4, Some 1, None, 238 / 10 + 979 / 100),
         (''flux-schnell'', ''FLUX.1-schnell'', ''Black Forest Labs FLUX.1-schnell (fast inference)'',
          4, None, None, 238 / 10 + 489 / 100),
         (''sdxl'', ''Stable Diffusion XL'', ''Stability AI SDXL 1.0 base model'',
          3, Some 3, None, 694 / 100 + 608 / 100),
         (''sdxl-biglove'', ''SDXL Big Love (Photorealistic Checkpoint)'',
          ''Community fine-tuned SDXL checkpoint focused on photorealistic portraits'',
          2, Some 1, None, 646 / 100),
         (''wan22'', ''WAN 2.2 (Text-to-Video 14B)'',
          ''Wuerstchen Architecture Network 2.2 - High quality text-to-video generation (14B params)'',
          4, Some 3, None, 135 / 10 + 135 / 10 + 489 / 100),
         (''qwen-image'', ''Qwen Image Edit 2509 (Lightning)'',
          ''Alibaba Qwen 2.5 VL - Image editing and generation with 4-step Lightning inference'',
          3, Some 2, None, 78 / 10 + 42 / 10),
         (''sd15'', ''Stable Diffusion 1.5'', ''Classic SD 1.5 - still widely used'',
          2, None, Some 2, 397 / 100),
         (''upscalers'', ''AI Upscaler Pack (Image & Video)'',
          ''Complete upscaling suite - ESRGAN, RealESRGAN, SeedVR2, and detail enhancement models'',
          7, Some 2, None, 72 / 10 + 20 / 10)])
     @ [MsgRule 80] \<and>
   map format_1f
     [238 / 10 + 979 / 100, 238 / 10 + 489 / 100, 694 / 100 + 608 / 100, 646 / 100,
      135 / 10 + 135 / 10 + 489 / 100, 78 / 10 + 42 / 10, 397 / 100, 72 / 10 + 20 / 10] =
     [336 / 10, 287 / 10, 130 / 10, 65 / 10, 319 / 10, 120 / 10, 40 / 10, 92 / 10]"
proof (intro conjI)
  show "fst (list_model_packs MODEL_DIR w) = None"
    by (simp add: list_model_packs_output)
  show "fs (snd (list_model_packs MODEL_DIR w)) = fs w"
    by (simp add: list_model_packs_output)
  show "requests (snd (list_model_packs MODEL_DIR w)) = requests w"
    by (simp add: list_model_packs_output)
  show "calls (snd (list_model_packs MODEL_DIR w)) = calls w"
    by (simp add: list_model_packs_output)
  show "stdout (snd (list_model_packs MODEL_DIR w)) =
     stdout w @ [MsgListTitle, MsgRule 80]
     @ concat (map (\<lambda>(k, n, d, c, l, cn, x).
          [MsgListKey k, MsgListName n, MsgListDescription d, MsgListIncludes c l cn,
           MsgListEstimatedSize (format_1f x)])
        [(''flux-dev'', ''FLUX.1-dev'', ''Black Forest Labs FLUX.1-dev (12B parameter model)'',
          4, Some 1, None, 238 / 10 + 979 / 100),
         (''flux-schnell'', ''FLUX.1-schnell'', ''Black Forest Labs FLUX.1-schnell (fast inference)'',
          4, None, None, 238 / 10 + 489 / 100),
         (''sdxl'', ''Stable Diffusion XL'', ''Stability AI SDXL 1.0 base model'',
          3, Some 3, None, 694 / 100 + 608 / 100),
         (''sdxl-biglove'', ''SDXL Big Love (Photorealistic Checkpoint)'',
          ''Community fine-tuned SDXL checkpoint focused on photorealistic portraits'',
          2, Some 1, None, 646 / 100),
         (''wan22'', ''WAN 2.2 (Text-to-Video 14B)'',
          ''Wuerstchen Architecture Network 2.2 - High quality text-to-video generation (14B params)'',
          4, Some 3, None, 135 / 10 + 135 / 10 + 489 / 100),
         (''qwen-image'', ''Qwen Image Edit 2509 (Lightning)'',
          ''Alibaba Qwen 2.5 VL - Image editing and generation with 4-step Lightning inference'',
          3, Some 2, None, 78 / 10 + 42 / 10),
         (''sd15'', ''Stable Diffusion 1.5'', ''Classic SD 1.5 - still widely used'',
          2, None, Some 2, 397 / 100),
         (''upscalers'', ''AI Upscaler Pack (Image & Video)'',
          ''Complete upscaling suite - ESRGAN, RealESRGAN, SeedVR2, and detail enhancement models'',
          7, Some 2, None, 72 / 10 + 20 / 10)])
     @ [MsgRule 80]"
    by (simp add: list_model_packs_output)
  show "map format_1f
     [238 / 10 + 979 / 100, 238 / 10 + 489 / 100, 694 / 100 + 608 / 100, 646 / 100,
      135 / 10 + 135 / 10 + 489 / 100, 78 / 10 + 42 / 10, 397 / 100, 72 / 10 + 20 / 10] =
     [336 / 10, 287 / 10, 130 / 10, 65 / 10, 319 / 10, 120 / 10, 40 / 10, 92 / 10]"
    by (rule format_1f_catalog)
qed

text \<open>
  C8 as stated fails in three places. The GB labels of \<open>wan22\<close> add up to 38.19
  (three LoRAs of 2.1 GB each are among them); the listing prints 31.9, which is
  neither that sum nor that sum with one decimal. The only GB label of
  \<open>sdxl-biglove\<close> is 6.46; the listing prints 6.5. And the line for
  \<open>flux-schnell\<close>, which has no LoRA and no ControlNet, names neither count.
\<close>

theorem listing_estimate_counterexample:
  "spec_estimated_size (pack_wan22 [''m'']) = Inr (3819 / 100) \<and>
   format_1f (3819 / 100) = 382 / 10 \<and>
   MsgListEstimatedSize (3819 / 100) \<notin> set (stdout (snd (list_model_packs [''m''] world0))) \<and>
   MsgListEstimatedSize (382 / 10) \<notin> set (stdout (snd (list_model_packs [''m''] world0))) \<and>
   MsgListEstimatedSize (319 / 10) \<in> set (stdout (snd (list_model_packs [''m''] world0))) \<and>
   spec_estimated_size (pack_sdxl_biglove [''m'']) = Inr (646 / 100) \<and>
   MsgListEstimatedSize (646 / 100) \<notin> set (stdout (snd (list_model_packs [''m''] world0))) \<and>
   MsgListEstimatedSize (65 / 10) \<in> set (stdout (snd (list_model_packs [''m''] world0))) \<and>
   MsgListIncludes 4 None None \<in> set (stdout (snd (list_model_packs [''m''] world0)))"
proof -
  have s: "spec_estimated_size (pack_wan22 [''m'']) = Inr (3819 / 100)"
    "spec_estimated_size (pack_sdxl_biglove [''m'']) = Inr (646 / 100)"
    by (simp_all add: spec_estimated_size_def pack_wan22_def pack_sdxl_biglove_def size_eval)
  have out: "stdout (snd (list_model_packs [''m''] world0)) =
        [MsgListTitle, MsgRule 80,
         MsgListKey ''flux-dev'', MsgListName ''FLUX.1-dev'',
         MsgListDescription ''Black Forest Labs FLUX.1-dev (12B parameter model)'',
         MsgListIncludes 4 (Some 1) None, MsgListEstimatedSize (336 / 10),
         MsgListKey ''flux-schnell'', MsgListName ''FLUX.1-schnell'',
         MsgListDescription ''Black Forest Labs FLUX.1-schnell (fast inference)'',
         MsgListIncludes 4 None None, MsgListEstimatedSize (287 / 10),
         MsgListKey ''sdxl'', MsgListName ''Stable Diffusion XL'',
         MsgListDescription ''Stability AI SDXL 1.0 base model'',
         MsgListIncludes 3 (Some 3) None, MsgListEstimatedSize (130 / 10),
         MsgListKey ''sdxl-biglove'', MsgListName ''SDXL Big Love (Photorealistic Checkpoint)'',
         MsgListDescription ''Community fine-tuned SDXL checkpoint focused on photorealistic portraits'',
         MsgListIncludes 2 (Some 1) None, MsgListEstimatedSize (65 / 10),
         MsgListKey ''wan22'', MsgListName ''WAN 2.2 (Text-to-Video 14B)'',
         MsgListDescription ''Wuerstchen Architecture Network 2.2 - High quality text-to-video generation (14B params)'',
         MsgListIncludes 4 (Some 3) None, MsgListEstimatedSize (319 / 10),
         MsgListKey ''qwen-image'', MsgListName ''Qwen Image Edit 2509 (Lightning)'',
         MsgListDescription ''Alibaba Qwen 2.5 VL - Image editing and generation with 4-step Lightning inference'',
         MsgListIncludes 3 (Some 2) None, MsgListEstimatedSize (120 / 10),
         MsgListKey ''sd15'', MsgListName ''Stable Diffusion 1.5'',
         MsgListDescription ''Classic SD 1.5 - still widely used'',
         MsgListIncludes 2 None (Some 2), MsgListEstimatedSize (40 / 10),
         MsgListKey ''upscalers'', MsgListName ''AI Upscaler Pack (Image & Video)'',
         MsgListDescription ''Complete upscaling suite - ESRGAN, RealESRGAN, SeedVR2, and detail enhancement models'',
         MsgListIncludes 7 (Some 2) None, MsgListEstimatedSize (92 / 10),
         MsgRule 80]"
    unfolding list_model_packs_output format_1f_flux_dev format_1f_flux_schnell format_1f_sdxl
      format_1f_sdxl_biglove format_1f_wan22 format_1f_qwen_image format_1f_sd15 format_1f_upscalers
    by (simp add: world0_def)
  show ?thesis
    unfolding out using s format_1f_wan22_all by simp
qed

text \<open>
  C10. The parser accepts the eight keys of the catalog and \<open>list\<close> and nothing
  else. A value whose lookup in the catalog fails is rejected in \<open>parse_args\<close>
  with exit status 2 and the world untouched, so \<open>main\<close> calls
  \<open>download_model_pack\<close> only where the lookup succeeds: the "not found" branch is
  never taken from the command line.
\<close>

theorem command_line_never_reaches_not_found:
  "set (choices MODEL_DIR) =
     {''flux-dev'', ''flux-schnell'', ''sdxl'', ''sdxl-biglove'', ''wan22'', ''qwen-image'',
      ''sd15'', ''upscalers'', ''list''}
   \<and> main MODEL_DIR env a w =
     (if args_pack a = ''list'' then (0, snd (list_model_packs MODEL_DIR w))
      else (case map_of (MODEL_PACKS MODEL_DIR) (args_pack a) of
              None \<Rightarrow> (2, w)
            | Some pack \<Rightarrow>
                (if fst (download_pack env pack (args_skip_optional a) (args_skip_loras a)
                           (args_skip_controlnet a) w) then 0 else 1,
                 snd (download_pack env pack (args_skip_optional a) (args_skip_loras a)
                           (args_skip_controlnet a) w))))"
proof -
  have c: "set (choices MODEL_DIR) =
     {''flux-dev'', ''flux-schnell'', ''sdxl'', ''sdxl-biglove'', ''wan22'', ''qwen-image'',
      ''sd15'', ''upscalers'', ''list''}"
    unfolding choices_def catalog_keys by auto
  have l: "''list'' \<in> set (choices MODEL_DIR)" by (simp add: choices_def)
  show ?thesis
  proof (cases "args_pack a = ''list''")
    case True
    with l list_model_packs_ok[of MODEL_DIR w] c show ?thesis
      by (simp add: main_def case_prod_unfold)
  next
    case False
    show ?thesis
    proof (cases "map_of (MODEL_PACKS MODEL_DIR) (args_pack a)")
      case None
      then have "args_pack a \<notin> set (map fst (MODEL_PACKS MODEL_DIR))"
        by (simp add: map_of_eq_None_iff)
      with False have "args_pack a \<notin> set (choices MODEL_DIR)"
        by (simp add: choices_def)
      with None False c show ?thesis by (simp add: main_def)
    next
      case (Some pack)
      have "args_pack a \<in> set (choices MODEL_DIR)"
        using catalog_lookup_in_keys[OF Some] by (simp add: choices_def)
      with Some False c show ?thesis
        by (simp add: main_def case_prod_unfold download_model_pack_known[OF Some])
    qed
  qed
qed

end
